theory Spec2Isabelle
  imports Complex_Main "HOL-Library.Multiset"
begin

section \<open>Region detection core: a model of \<open>region_detector.cpp\<close>\<close>

text \<open>
  The model follows \<open>region_detection_core/src/region_detector.cpp\<close>.
  Pixel coordinates (\<open>cv::Point\<close>, two C \<open>int\<close>s) are pairs of integers; image
  coordinates stay far below \<open>2^31\<close>, so the arithmetic on them is written on
  \<open>int\<close> without wrap-around.  Reading \<open>front()\<close> of an empty vector, erasing at
  \<open>end()\<close>, dividing by zero and an \<open>at\<close> that throws are results of their own.
\<close>

datatype error =
    FrontOfEmpty          \<comment> \<open>\<open>front()\<close>, \<open>back()\<close> or \<open>operator[]\<close> on an empty container\<close>
  | EraseAtEnd            \<comment> \<open>\<open>vector::erase(end())\<close>\<close>
  | DivisionByZero        \<comment> \<open>integer division by zero\<close>
  | OutOfRange            \<comment> \<open>\<open>at\<close> throws \<open>std::out_of_range\<close>\<close>

definition bindE :: "error + 'a \<Rightarrow> ('a \<Rightarrow> error + 'b) \<Rightarrow> error + 'b" where
  "bindE m f = (case m of Inl e \<Rightarrow> Inl e | Inr v \<Rightarrow> f v)"

fun mapE :: "('a \<Rightarrow> error + 'b) \<Rightarrow> 'a list \<Rightarrow> error + 'b list" where
  "mapE f [] = Inr []"
| "mapE f (x # xs) =
     (case f x of Inl e \<Rightarrow> Inl e
      | Inr y \<Rightarrow> (case mapE f xs of Inl e \<Rightarrow> Inl e | Inr ys \<Rightarrow> Inr (y # ys)))"

subsection \<open>Contour densification (\<open>linspace\<close> and the interpolation loop of \<open>compute\<close>)\<close>

type_synonym cv_Point = "int \<times> int"

definition MIN_PIXEL_DISTANCE :: int where
  "MIN_PIXEL_DISTANCE = 1"

text \<open>C division of \<open>int\<close>: the quotient is truncated towards zero.\<close>

definition c_div :: "int \<Rightarrow> int \<Rightarrow> int" where
  "c_div a b = sgn a * sgn b * (\<bar>a\<bar> div \<bar>b\<bar>)"

text \<open>The filling loop of \<open>linspace\<close>: \<open>*x = val\<close>, then \<open>val += h\<close>, for \<open>N\<close> cells.\<close>

fun linspace_fill :: "int \<Rightarrow> int \<Rightarrow> nat \<Rightarrow> int list" where
  "linspace_fill val h 0 = []"
| "linspace_fill val h (Suc n) = val # linspace_fill (val + h) h n"

text \<open>
  \<open>linspace<int>(a, b, N)\<close>: the step \<open>h = (b - a) / static_cast<int>(N-1)\<close> is an
  integer quotient.  \<open>N = 1\<close> divides by zero; for \<open>N = 0\<close> the \<open>size_t\<close> value
  \<open>N-1\<close> converts to \<open>-1\<close> and the vector is empty.
\<close>

definition linspace :: "int \<Rightarrow> int \<Rightarrow> nat \<Rightarrow> error + int list" where
  "linspace a b N =
     (if N = 1 then Inl DivisionByZero
      else let h = c_div (b - a) (if N = 0 then - 1 else int N - 1)
           in Inr (linspace_fill a h N))"

text \<open>One step \<open>j\<close> of the inner loop: what is pushed for the pair \<open>(p1, p2)\<close>.\<close>

definition interpolate_pair :: "cv_Point \<Rightarrow> cv_Point \<Rightarrow> error + cv_Point list" where
  "interpolate_pair p1 p2 =
     (let x_coord_dist = \<bar>fst p2 - fst p1\<bar>;
          y_coord_dist = \<bar>snd p2 - snd p1\<bar>;
          max_coord_dist = (if x_coord_dist > y_coord_dist then x_coord_dist else y_coord_dist)
      in if max_coord_dist \<le> MIN_PIXEL_DISTANCE then Inr [p2]
         else let num_elements = nat (max_coord_dist + 1)
              in bindE (linspace (fst p1) (fst p2) num_elements) (\<lambda>x_coord.
                 bindE (linspace (snd p1) (snd p2) num_elements) (\<lambda>y_coord.
                 Inr (zip x_coord y_coord))))"

fun interpolate_from :: "cv_Point \<Rightarrow> cv_Point list \<Rightarrow> error + cv_Point list" where
  "interpolate_from p1 [] = Inr []"
| "interpolate_from p1 (p2 # ps) =
     bindE (interpolate_pair p1 p2) (\<lambda>seg.
     bindE (interpolate_from p2 ps) (\<lambda>rest. Inr (seg @ rest)))"

text \<open>
  The body of the loop over \<open>contours_indices\<close>: the first vertex is pushed, then every
  consecutive pair is interpolated.
\<close>

definition interpolate_indices :: "cv_Point list \<Rightarrow> error + cv_Point list" where
  "interpolate_indices indices =
     (case indices of
        [] \<Rightarrow> Inl FrontOfEmpty
      | p # ps \<Rightarrow> bindE (interpolate_from p ps) (\<lambda>rest. Inr (p # rest)))"

text \<open>Chebyshev distance of two pixels, and 8-connectedness of a polyline.\<close>

definition chebyshev :: "cv_Point \<Rightarrow> cv_Point \<Rightarrow> int" where
  "chebyshev a b = max \<bar>fst b - fst a\<bar> \<bar>snd b - snd a\<bar>"

fun eight_connected :: "cv_Point list \<Rightarrow> bool" where
  "eight_connected (a # b # ps) = (chebyshev a b \<le> 1 \<and> eight_connected (b # ps))"
| "eight_connected ps = True"

subsection \<open>Points and clouds\<close>

text \<open>
  A \<open>pcl::PointXYZ\<close> is a triple of coordinates and a cloud is the list of its points.
  The coordinates are single precision floats in the source; the model computes with
  real numbers, so rounding is left out of it.
\<close>

type_synonym PointXYZ = "real \<times> real \<times> real"

definition MIN_POINT_DIST :: real where
  "MIN_POINT_DIST = 1 / 10 ^ 8"

definition diff3 :: "PointXYZ \<Rightarrow> PointXYZ \<Rightarrow> PointXYZ" where
  "diff3 p q = (fst p - fst q, fst (snd p) - fst (snd q), snd (snd p) - snd (snd q))"

definition squaredNorm :: "PointXYZ \<Rightarrow> real" where
  "squaredNorm v = fst v * fst v + fst (snd v) * fst (snd v) + snd (snd v) * snd (snd v)"

definition norm3 :: "PointXYZ \<Rightarrow> real" where
  "norm3 v = sqrt (squaredNorm v)"

subsection \<open>\<open>RegionDetector::sequence\<close>\<close>

text \<open>
  The k-d tree of PCL is a library the repository calls.  A search
  \<open>nearestKSearch(p, 1, k_indices, k_sqr_distances)\<close> on a tree built with
  \<open>setEpsilon(epsilon)\<close> and \<open>setInputCloud(cloud, indices)\<close> is a parameter of the
  model: it returns \<open>None\<close> when no point is found and otherwise the index (into the
  cloud) and the squared distance of the point it found.
\<close>

type_synonym kd_search = "real \<Rightarrow> PointXYZ list \<Rightarrow> nat list \<Rightarrow> PointXYZ \<Rightarrow> (nat \<times> real) option"

text \<open>
  \<open>std::remove(first, last, v)\<close> shifts the elements different from \<open>v\<close> to the front
  and returns the position after them; the cells behind keep the values they had
  (they are \<open>int\<close>s).  \<open>vector::erase(pos)\<close> with one iterator removes the single
  element at \<open>pos\<close>, and \<open>pos = end()\<close> is undefined behaviour.
\<close>

definition std_remove :: "'a list \<Rightarrow> 'a \<Rightarrow> 'a list \<times> nat" where
  "std_remove xs v = (let kept = filter (\<lambda>x. x \<noteq> v) xs
                      in (kept @ drop (length kept) xs, length kept))"

definition erase_at :: "'a list \<Rightarrow> nat \<Rightarrow> error + 'a list" where
  "erase_at xs pos = (if pos < length xs then Inr (take pos xs @ drop (Suc pos) xs)
                      else Inl EraseAtEnd)"

definition erase_remove :: "'a list \<Rightarrow> 'a \<Rightarrow> error + 'a list" where
  "erase_remove xs v = (case std_remove xs v of (ys, pos) \<Rightarrow> erase_at ys pos)"

record seq_state =
  iter_count :: nat
  unsequenced_indices :: "nat list"
  sequenced_indices :: "nat list"
  sequenced_points :: "PointXYZ list"
  search_point_idx :: nat
  search_point :: PointXYZ

datatype 'a step = Next 'a | Break 'a | Crash error 'a

text \<open>One pass through the body of the \<open>while\<close> loop.\<close>

definition sequence_step :: "kd_search \<Rightarrow> real \<Rightarrow> PointXYZ list \<Rightarrow> seq_state \<Rightarrow> seq_state step" where
  "sequence_step kd epsilon cloud st =
     (let st1 = st\<lparr>iter_count := iter_count st + 1\<rparr>
      in case erase_remove (unsequenced_indices st1) (search_point_idx st1) of
           Inl e \<Rightarrow> Crash e st1
         | Inr unseq \<Rightarrow>
             let st2 = st1\<lparr>unsequenced_indices := unseq\<rparr>
             in if unseq = [] then Break st2
                else (case kd epsilon cloud unseq (search_point st2) of
                        None \<Rightarrow> Break st2
                      | Some (k, k_sqr_distance) \<Rightarrow>
                          let st3 = (if sequenced_indices st2 = []
                                     then st2\<lparr>sequenced_indices := [search_point_idx st2],
                                              sequenced_points := [search_point st2]\<rparr>
                                     else st2)
                          in if k \<in> set (sequenced_indices st3) then Next st3
                             else if length cloud \<le> k \<or> length cloud \<le> hd (sequenced_indices st3)
                             then Crash OutOfRange st3
                             else
                               let closest_point = cloud ! k;
                                   start_point = cloud ! hd (sequenced_indices st3);
                                   st4 = (if norm3 (diff3 start_point closest_point) < sqrt k_sqr_distance
                                          then st3\<lparr>sequenced_indices := rev (sequenced_indices st3),
                                                   sequenced_points := rev (sequenced_points st3)\<rparr>
                                          else st3)
                               in Next (st4\<lparr>search_point_idx := k,
                                            search_point := closest_point,
                                            sequenced_indices := sequenced_indices st4 @ [k],
                                            sequenced_points := sequenced_points st4 @ [closest_point]\<rparr>)))"

text \<open>
  The loop \<open>while(iter_count <= max_iters)\<close>.  It returns the state in which it
  stopped, and the fault if it stopped on one.
\<close>

function sequence_loop ::
  "kd_search \<Rightarrow> real \<Rightarrow> PointXYZ list \<Rightarrow> nat \<Rightarrow> seq_state \<Rightarrow> error option \<times> seq_state" where
  "sequence_loop kd epsilon cloud max_iters st =
     (if iter_count st \<le> max_iters
      then (case sequence_step kd epsilon cloud st of
              Next st' \<Rightarrow> sequence_loop kd epsilon cloud max_iters st'
            | Break st' \<Rightarrow> (None, st')
            | Crash e st' \<Rightarrow> (Some e, st'))
      else (None, st))"
  by pat_completeness auto
termination
  by (relation "measure (\<lambda>(kd, epsilon, cloud, max_iters, st). Suc max_iters - iter_count st)")
     (auto simp: sequence_step_def Let_def split: sum.splits if_splits option.splits prod.splits)

declare sequence_loop.simps [simp del]

text \<open>The state before the loop; \<open>cloud[0]\<close> is read, which an empty cloud does not have.\<close>

definition sequence_init :: "PointXYZ list \<Rightarrow> error + seq_state" where
  "sequence_init cloud =
     (case cloud of
        [] \<Rightarrow> Inl FrontOfEmpty
      | p0 # _ \<Rightarrow> Inr \<lparr>iter_count = 0, unsequenced_indices = [0 ..< length cloud],
                       sequenced_indices = [], sequenced_points = [],
                       search_point_idx = 0, search_point = p0\<rparr>)"

definition sequence :: "kd_search \<Rightarrow> PointXYZ list \<Rightarrow> real \<Rightarrow> error + PointXYZ list" where
  "sequence kd cloud epsilon =
     bindE (sequence_init cloud) (\<lambda>st0.
       case sequence_loop kd epsilon cloud (length cloud) st0 of
         (Some e, st) \<Rightarrow> Inl e
       | (None, st) \<Rightarrow> Inr (sequenced_points st))"

text \<open>The number of passes through the loop body that \<open>sequence\<close> makes.\<close>

definition sequence_iterations :: "kd_search \<Rightarrow> PointXYZ list \<Rightarrow> real \<Rightarrow> nat" where
  "sequence_iterations kd cloud epsilon =
     (case sequence_init cloud of
        Inl e \<Rightarrow> 0
      | Inr st0 \<Rightarrow> iter_count (snd (sequence_loop kd epsilon cloud (length cloud) st0)))"

text \<open>
  An exact search, for running the model: the first index of \<open>indices\<close> whose point
  is nearest to \<open>p\<close>, whatever \<open>epsilon\<close> is.
\<close>

definition sqr_dist :: "PointXYZ \<Rightarrow> PointXYZ \<Rightarrow> real" where
  "sqr_dist p q = squaredNorm (diff3 p q)"

fun nearest_of :: "PointXYZ list \<Rightarrow> PointXYZ \<Rightarrow> nat list \<Rightarrow> (nat \<times> real) option" where
  "nearest_of cloud p [] = None"
| "nearest_of cloud p (i # idxs) =
     (case nearest_of cloud p idxs of
        None \<Rightarrow> Some (i, sqr_dist (cloud ! i) p)
      | Some (j, d) \<Rightarrow> if sqr_dist (cloud ! i) p \<le> d then Some (i, sqr_dist (cloud ! i) p)
                       else Some (j, d))"

definition exact_search :: kd_search where
  "exact_search epsilon cloud indices p = nearest_of cloud p indices"

subsection \<open>\<open>RegionDetector::split\<close>\<close>

text \<open>
  The inner loop that saves a segment: the first point is pushed, a later point is
  pushed unless it is closer than \<open>MIN_POINT_DIST\<close> to \<open>segment_points->back()\<close>.
\<close>

fun save_points :: "PointXYZ \<Rightarrow> PointXYZ list \<Rightarrow> PointXYZ list" where
  "save_points p_prev [] = []"
| "save_points p_prev (p_current # ps) =
     (if norm3 (diff3 p_current p_prev) < MIN_POINT_DIST then save_points p_prev ps
      else p_current # save_points p_current ps)"

definition save_segment :: "PointXYZ list \<Rightarrow> PointXYZ list" where
  "save_segment ps = (case ps of [] \<Rightarrow> [] | p # rest \<Rightarrow> p # save_points p rest)"

text \<open>
  The loop over \<open>i\<close>; \<open>start_idx\<close> and the vector of segments are its state.  A
  segment that keeps one point only is ignored and \<open>start_idx\<close> stays where it was.
\<close>

function split_loop ::
  "PointXYZ list \<Rightarrow> real \<Rightarrow> nat \<Rightarrow> nat \<Rightarrow> PointXYZ list list \<Rightarrow> PointXYZ list list" where
  "split_loop points split_dist i start_idx vec =
     (if i < length points
      then if i < length points - 1 \<and>
              norm3 (diff3 (points ! (i + 1)) (points ! i)) < split_dist
           then split_loop points split_dist (i + 1) start_idx vec
           else if i = start_idx
           then split_loop points split_dist (i + 1) (i + 1) vec
           else let segment_points =
                      save_segment (take (i + 1 - start_idx) (drop start_idx points))
                in if length segment_points \<le> 1
                   then split_loop points split_dist (i + 1) start_idx vec
                   else split_loop points split_dist (i + 1) (i + 1)
                          (vec @ [segment_points])
      else vec)"
  by pat_completeness auto
termination
  by (relation "measure (\<lambda>(pts, d, i, start_idx, vec). length pts - i)") auto

declare split_loop.simps [simp del]

definition split :: "PointXYZ list \<Rightarrow> real \<Rightarrow> PointXYZ list list" where
  "split points split_dist = split_loop points split_dist 0 0 []"

subsection \<open>\<open>RegionDetector::findClosedCurves\<close>\<close>

text \<open>
  The two output vectors are passed in and returned.  \<open>front()\<close> and \<open>back()\<close> of an
  empty curve are undefined.
\<close>

fun findClosedCurves ::
  "PointXYZ list list \<Rightarrow> real \<Rightarrow> PointXYZ list list \<Rightarrow> PointXYZ list list
   \<Rightarrow> error + (PointXYZ list list \<times> PointXYZ list list)" where
  "findClosedCurves [] max_dist closed_curves_vec open_curves_vec =
     Inr (closed_curves_vec, open_curves_vec)"
| "findClosedCurves (curve_points # rest) max_dist closed_curves_vec open_curves_vec =
     (if curve_points = [] then Inl FrontOfEmpty
      else if norm3 (diff3 (hd curve_points) (last curve_points)) < max_dist
      then findClosedCurves rest max_dist
             (closed_curves_vec @ [curve_points @ [hd curve_points]]) open_curves_vec
      else findClosedCurves rest max_dist closed_curves_vec (open_curves_vec @ [curve_points]))"

subsection \<open>\<open>RegionDetector::simplifyByMinimunLength\<close>\<close>

text \<open>
  The loop over the interior points \<open>1 .. size - 2\<close>; \<open>p0\<close> is
  \<open>simplified_segment->back()\<close>.
\<close>

fun simplify_interior :: "real \<Rightarrow> PointXYZ \<Rightarrow> PointXYZ list \<Rightarrow> PointXYZ list" where
  "simplify_interior min_length p0 [] = []"
| "simplify_interior min_length p0 (p1 # ps) =
     (if norm3 (diff3 p0 p1) > min_length then p1 # simplify_interior min_length p1 ps
      else simplify_interior min_length p0 ps)"

definition simplify_segment :: "real \<Rightarrow> PointXYZ list \<Rightarrow> error + PointXYZ list" where
  "simplify_segment min_length segment =
     (case segment of
        [] \<Rightarrow> Inl FrontOfEmpty
      | p # ps \<Rightarrow> Inr (p # simplify_interior min_length p (butlast ps) @ [last segment]))"

definition simplifyByMinimunLength :: "PointXYZ list list \<Rightarrow> real \<Rightarrow> error + PointXYZ list list" where
  "simplifyByMinimunLength segments min_length = mapE (simplify_segment min_length) segments"

subsection \<open>\<open>RegionDetector::mergeCurves\<close>\<close>

text \<open>\<open>std::min_element\<close>: the position of the first smallest element.\<close>

fun min_element_scan :: "nat \<Rightarrow> real \<Rightarrow> nat \<Rightarrow> real list \<Rightarrow> nat" where
  "min_element_scan smallest v first [] = smallest"
| "min_element_scan smallest v first (x # xs) =
     (if x < v then min_element_scan first x (first + 1) xs
      else min_element_scan smallest v (first + 1) xs)"

definition min_element :: "real list \<Rightarrow> nat" where
  "min_element xs = (case xs of [] \<Rightarrow> 0 | x # rest \<Rightarrow> min_element_scan 0 x 1 rest)"

definition end_points_distances :: "PointXYZ list \<Rightarrow> PointXYZ list \<Rightarrow> real list" where
  "end_points_distances c1 c2 =
     [norm3 (diff3 (hd c1) (hd c2)), norm3 (diff3 (hd c1) (last c2)),
      norm3 (diff3 (last c1) (hd c2)), norm3 (diff3 (last c1) (last c2))]"

text \<open>
  The result is \<open>None\<close> where the source returns \<open>false\<close> (and leaves \<open>merged\<close>
  alone), and the merged curve where it returns \<open>true\<close>.
\<close>

definition mergeCurves :: "real \<Rightarrow> PointXYZ list \<Rightarrow> PointXYZ list \<Rightarrow> error + PointXYZ list option" where
  "mergeCurves max_merge_dist c1 c2 =
     (if c1 = [] \<or> c2 = [] then Inl FrontOfEmpty
      else let ds = end_points_distances c1 c2;
               merge_method = min_element ds
           in if ds ! merge_method > max_merge_dist then Inr None
              else Inr (Some (if merge_method = 0 then rev c2 @ c1
                              else if merge_method = 1 then c2 @ c1
                              else if merge_method = 2 then c1 @ c2
                              else c1 @ rev c2)))"

subsection \<open>\<open>RegionDetector::combineIntoClosedRegions\<close>\<close>

text \<open>
  One run of the \<open>for(int idx : merge_candidate_indices)\<close> loop.  The state is the
  curve merged so far, \<open>merged_curves_indices\<close> (sorted and made unique after each
  candidate) and the flag \<open>merged_curves\<close>.
\<close>

fun merge_pass ::
  "real \<Rightarrow> PointXYZ list list \<Rightarrow> nat \<Rightarrow> nat list \<Rightarrow> PointXYZ list \<times> nat list \<times> bool
   \<Rightarrow> error + (PointXYZ list \<times> nat list \<times> bool)" where
  "merge_pass max_merge_dist curves i [] st = Inr st"
| "merge_pass max_merge_dist curves i (idx # rest) (curve_points, merged_curves_indices, merged_curves) =
     (if idx \<in> set merged_curves_indices
      then merge_pass max_merge_dist curves i rest (curve_points, merged_curves_indices, merged_curves)
      else case mergeCurves max_merge_dist curve_points (curves ! idx) of
             Inl e \<Rightarrow> Inl e
           | Inr None \<Rightarrow>
               merge_pass max_merge_dist curves i rest
                 (curve_points, remdups_adj (sort merged_curves_indices), merged_curves)
           | Inr (Some merged_points) \<Rightarrow>
               merge_pass max_merge_dist curves i rest
                 (merged_points, remdups_adj (sort (merged_curves_indices @ [i, idx])), True))"

text \<open>
  Every merge marks a candidate that was not marked before, so the \<open>do ... while\<close>
  loop around the pass runs a pass without a merge after finitely many passes.
\<close>

lemma merge_pass_grows:
  "merge_pass m curves i cands (c, mg, f) = Inr (c', mg', f') \<Longrightarrow>
     set mg \<subseteq> set mg' \<and> (f' \<longrightarrow> f \<or> (\<exists>idx \<in> set cands. idx \<notin> set mg \<and> idx \<in> set mg'))"
proof (induction cands arbitrary: c mg f)
  case Nil
  then show ?case by simp
next
  case (Cons idx rest)
  show ?case
  proof (cases "idx \<in> set mg")
    case True
    with Cons.prems have "merge_pass m curves i rest (c, mg, f) = Inr (c', mg', f')" by simp
    from Cons.IH [OF this] show ?thesis by auto
  next
    case False
    show ?thesis
    proof (cases "mergeCurves m c (curves ! idx)")
      case (Inl e)
      with False Cons.prems show ?thesis by simp
    next
      case (Inr r)
      show ?thesis
      proof (cases r)
        case None
        with False Inr Cons.prems
        have "merge_pass m curves i rest (c, remdups_adj (sort mg), f) = Inr (c', mg', f')" by simp
        from Cons.IH [OF this] show ?thesis by auto
      next
        case (Some merged_points)
        with False Inr Cons.prems
        have "merge_pass m curves i rest (merged_points, remdups_adj (sort (mg @ [i, idx])), True)
                = Inr (c', mg', f')" by simp
        from Cons.IH [OF this] have "set mg \<subseteq> set mg'" and "idx \<in> set mg'" by auto
        with False show ?thesis by auto
      qed
    qed
  qed
qed

lemma length_filter_shrinks:
  assumes "\<And>x. Q x \<Longrightarrow> P x" and "x \<in> set xs" and "P x" and "\<not> Q x"
  shows "length (filter Q xs) < length (filter P xs)"
proof -
  have eq: "filter Q (filter P xs) = filter Q xs"
    using assms(1) by (induction xs) auto
  have "x \<in> set (filter P xs)" using assms(2,3) by simp
  then have "length (filter Q (filter P xs)) < length (filter P xs)"
    using assms(4) by (rule length_filter_less [where P = Q])
  then show ?thesis
    unfolding eq .
qed

lemma merge_pass_measure:
  assumes "merge_pass m curves i cands (c, mg, False) = Inr (c', mg', True)"
  shows "length (filter (\<lambda>k. k \<notin> set mg') cands) < length (filter (\<lambda>k. k \<notin> set mg) cands)"
proof -
  from merge_pass_grows [OF assms] obtain idx where
    sub: "set mg \<subseteq> set mg'" and idx: "idx \<in> set cands" "idx \<notin> set mg" "idx \<in> set mg'"
    by auto
  show ?thesis
    by (rule length_filter_shrinks [where x = idx]) (use sub idx in auto)
qed

text \<open>The loop \<open>do { ... } while(merged_curves)\<close>.\<close>

function merge_until_stable ::
  "real \<Rightarrow> PointXYZ list list \<Rightarrow> nat \<Rightarrow> nat list \<Rightarrow> PointXYZ list \<times> nat list
   \<Rightarrow> error + (PointXYZ list \<times> nat list)" where
  "merge_until_stable max_merge_dist curves i merge_candidate_indices (curve_points, merged_curves_indices) =
     (case merge_pass max_merge_dist curves i merge_candidate_indices
             (curve_points, merged_curves_indices, False) of
        Inl e \<Rightarrow> Inl e
      | Inr (curve_points', merged_curves_indices', merged_curves) \<Rightarrow>
          if merged_curves
          then merge_until_stable max_merge_dist curves i merge_candidate_indices
                 (curve_points', merged_curves_indices')
          else Inr (curve_points', merged_curves_indices'))"
  by pat_completeness auto
termination
  by (relation "measure (\<lambda>(m, curves, i, cands, (c, mg)). length (filter (\<lambda>k. k \<notin> set mg) cands))")
     (auto simp: merge_pass_measure)

declare merge_until_stable.simps [simp del]

record Result =
  success :: bool
  msg :: string

text \<open>
  The loop over the curves \<open>i\<close>.  Its state is \<open>merged_curves_indices\<close> and the two
  output vectors.  The candidates of curve \<open>i\<close> are all indices but \<open>i\<close>.
\<close>

fun combine_loop ::
  "real \<Rightarrow> real \<Rightarrow> PointXYZ list list \<Rightarrow> nat list
   \<Rightarrow> nat list \<times> PointXYZ list list \<times> PointXYZ list list
   \<Rightarrow> error + (nat list \<times> PointXYZ list list \<times> PointXYZ list list)" where
  "combine_loop max_merge_dist closed_curve_max_dist curves [] st = Inr st"
| "combine_loop max_merge_dist closed_curve_max_dist curves (i # rest)
       (merged_curves_indices, closed_curves, open_curves) =
     (if i \<in> set merged_curves_indices
      then combine_loop max_merge_dist closed_curve_max_dist curves rest
             (merged_curves_indices, closed_curves, open_curves)
      else
        case merge_until_stable max_merge_dist curves i
               (take i [0 ..< length curves] @ drop (Suc i) [0 ..< length curves])
               (curves ! i, merged_curves_indices) of
          Inl e \<Rightarrow> Inl e
        | Inr (curve_points, merged_curves_indices') \<Rightarrow>
            if curve_points = [] then Inl FrontOfEmpty
            else if norm3 (diff3 (hd curve_points) (last curve_points)) < closed_curve_max_dist
            then combine_loop max_merge_dist closed_curve_max_dist curves rest
                   (merged_curves_indices' @ [i],
                    closed_curves @ [curve_points @ [hd curve_points]], open_curves)
            else combine_loop max_merge_dist closed_curve_max_dist curves rest
                   (merged_curves_indices' @ [i], closed_curves, open_curves @ [curve_points]))"

text \<open>
  \<open>combineIntoClosedRegions\<close>, with \<open>cfg_->pcl_cfg.max_merge_dist\<close> and
  \<open>cfg_->pcl_cfg.closed_curve_max_dist\<close> as its first two arguments; the output
  vectors are passed in and returned.
\<close>

definition combineIntoClosedRegions ::
  "real \<Rightarrow> real \<Rightarrow> PointXYZ list list \<Rightarrow> PointXYZ list list \<Rightarrow> PointXYZ list list
   \<Rightarrow> error + (Result \<times> PointXYZ list list \<times> PointXYZ list list)" where
  "combineIntoClosedRegions max_merge_dist closed_curve_max_dist contours_points
       closed_curves open_curves =
     bindE (combine_loop max_merge_dist closed_curve_max_dist contours_points
              [0 ..< length contours_points] ([], closed_curves, open_curves))
       (\<lambda>(merged_curves_indices, closed_curves', open_curves').
          let open_curves'' = open_curves' @
                map ((!) contours_points)
                  (filter (\<lambda>i. i \<notin> set merged_curves_indices) [0 ..< length contours_points])
          in Inr (if closed_curves' = []
                  then \<lparr>success = False, msg = ''Found no closed curves''\<rparr>
                  else \<lparr>success = True, msg = []\<rparr>,
                  closed_curves', open_curves''))"

subsection \<open>Vectors, rotations and \<open>RegionDetector::computePoses\<close>\<close>

text \<open>
  \<open>Eigen::Vector3d\<close> is a triple as well.  \<open>normalized()\<close> divides by the norm when
  the squared norm is positive and returns the vector as it is otherwise (Eigen 3.3).
\<close>

abbreviation xc :: "PointXYZ \<Rightarrow> real" where "xc v \<equiv> fst v"
abbreviation yc :: "PointXYZ \<Rightarrow> real" where "yc v \<equiv> fst (snd v)"
abbreviation zc :: "PointXYZ \<Rightarrow> real" where "zc v \<equiv> snd (snd v)"

definition scale3 :: "real \<Rightarrow> PointXYZ \<Rightarrow> PointXYZ" where
  "scale3 a v = (a * xc v, a * yc v, a * zc v)"

definition dot3 :: "PointXYZ \<Rightarrow> PointXYZ \<Rightarrow> real" where
  "dot3 u v = xc u * xc v + yc u * yc v + zc u * zc v"

definition cross3 :: "PointXYZ \<Rightarrow> PointXYZ \<Rightarrow> PointXYZ" where
  "cross3 u v = (yc u * zc v - zc u * yc v, zc u * xc v - xc u * zc v, xc u * yc v - yc u * xc v)"

definition normalized :: "PointXYZ \<Rightarrow> PointXYZ" where
  "normalized v = (if squaredNorm v > 0 then scale3 (1 / sqrt (squaredNorm v)) v else v)"

text \<open>A 3x3 matrix is the triple of its rows.\<close>

type_synonym Matrix3d = "PointXYZ \<times> PointXYZ \<times> PointXYZ"

definition toRotationMatrix :: "PointXYZ \<Rightarrow> PointXYZ \<Rightarrow> PointXYZ \<Rightarrow> Matrix3d" where
  "toRotationMatrix vx vy vz =
     ((xc vx, xc vy, xc vz), (yc vx, yc vy, yc vz), (zc vx, zc vy, zc vz))"

record Pose =
  translation :: PointXYZ
  rotation :: Matrix3d

text \<open>A \<open>pcl::PointNormal\<close>: the position and the normal.\<close>

type_synonym PointNormal = "PointXYZ \<times> PointXYZ"

text \<open>
  The body of the loop over \<open>i\<close> in \<open>computePoses\<close>.  For the last point the
  neighbour is \<open>i - 1\<close> and the direction is reversed; for a curve of one point
  \<open>i - 1\<close> wraps around and \<open>at\<close> throws.
\<close>

definition pose_at :: "PointXYZ list \<Rightarrow> PointXYZ list \<Rightarrow> nat \<Rightarrow> error + Pose" where
  "pose_at curve curve_normals i =
     (if length curve \<le> i + 1 \<and> i = 0 then Inl OutOfRange
      else let idx_current = i;
               idx_next = (if length curve \<le> i + 1 then i - 1 else i + 1);
               dir = (if length curve \<le> i + 1 then - 1 else 1)
           in if length curve \<le> idx_current \<or> length curve_normals \<le> idx_current \<or>
                 length curve \<le> idx_next \<or> length curve_normals \<le> idx_next
              then Inl OutOfRange
              else let p1 = curve ! idx_current;
                       n1 = curve_normals ! idx_current;
                       p2 = curve ! idx_next;
                       x_dir = scale3 dir (normalized (diff3 p2 p1));
                       z_dir = normalized n1;
                       y_dir = normalized (cross3 z_dir x_dir);
                       z_dir' = normalized (cross3 x_dir y_dir)
                   in Inr \<lparr>translation = p1, rotation = toRotationMatrix x_dir y_dir z_dir'\<rparr>)"

text \<open>
  The search of the normal of every point of a curve: \<open>None\<close> when the tree finds no
  point (the source returns a failed \<open>Result\<close>), a fault when \<open>at\<close> throws.
\<close>

fun curve_normals_of ::
  "kd_search \<Rightarrow> real \<Rightarrow> PointNormal list \<Rightarrow> PointXYZ list \<Rightarrow> error + PointXYZ list option" where
  "curve_normals_of kd epsilon source_normal_cloud [] = Inr (Some [])"
| "curve_normals_of kd epsilon source_normal_cloud (search_p # rest) =
     (case kd epsilon (map fst source_normal_cloud) [0 ..< length source_normal_cloud] search_p of
        None \<Rightarrow> Inr None
      | Some (k, d) \<Rightarrow>
          if length source_normal_cloud \<le> k then Inl OutOfRange
          else (case curve_normals_of kd epsilon source_normal_cloud rest of
                  Inl e \<Rightarrow> Inl e
                | Inr None \<Rightarrow> Inr None
                | Inr (Some ns) \<Rightarrow> Inr (Some (snd (source_normal_cloud ! k) # ns))))"

text \<open>
  \<open>computePoses\<close>, with the search and \<open>cfg.kdtree_epsilon\<close> as arguments; the
  vector \<open>curves_poses\<close> is passed in and returned.
\<close>

fun computePoses ::
  "kd_search \<Rightarrow> real \<Rightarrow> PointNormal list \<Rightarrow> PointXYZ list list \<Rightarrow> Pose list list
   \<Rightarrow> error + (Result \<times> Pose list list)" where
  "computePoses kd epsilon source_normal_cloud [] curves_poses =
     Inr (\<lparr>success = True, msg = []\<rparr>, curves_poses)"
| "computePoses kd epsilon source_normal_cloud (curve # rest) curves_poses =
     (case curve_normals_of kd epsilon source_normal_cloud curve of
        Inl e \<Rightarrow> Inl e
      | Inr None \<Rightarrow>
          Inr (\<lparr>success = False, msg = ''Kdtree found no nearby points during pose computation''\<rparr>,
               curves_poses)
      | Inr (Some curve_normals) \<Rightarrow>
          (case mapE (pose_at curve curve_normals) [0 ..< length curve] of
             Inl e \<Rightarrow> Inl e
           | Inr curve_poses \<Rightarrow>
               computePoses kd epsilon source_normal_cloud rest (curves_poses @ [curve_poses])))"

subsection \<open>Configuration and the libraries\<close>

text \<open>
  The configuration record \<open>RegionDetectionConfig\<close> is declared in a header that is not
  among the sources; its fields are the ones \<open>region_detector.cpp\<close> reads, grouped as
  there (\<open>opencv_cfg\<close>, \<open>pcl_2d_cfg\<close>, \<open>pcl_cfg\<close>).  The fields that only steer
  the debug windows are left out.
\<close>

record OpenCVCfg =
  invert_image :: bool
  dilation_enable :: bool
  dilation_kernel_size :: int
  dilation_elem :: int
  threshold_enable :: bool
  threshold_value :: int
  threshold_type :: int
  threshold_MAX_BINARY_VALUE :: int
  canny_enable :: bool
  canny_lower_threshold :: int
  canny_upper_threshold :: int
  canny_aperture_size :: int
  contour_mode :: int
  contour_method :: int

record PCL2DCfg =
  pcl2d_downsampling_radius :: real
  pcl2d_split_dist :: real
  pcl2d_closed_curve_max_dist :: real
  pcl2d_simplification_min_points :: int
  pcl2d_simplification_alpha :: real

record PCLCfg =
  pcl_max_merge_dist :: real
  pcl_closed_curve_max_dist :: real
  pcl_simplification_min_dist :: real
  pcl_min_num_points :: nat
  stat_removal_enable :: bool
  stat_removal_kmeans :: int
  stat_removal_stddev :: real
  normal_est_downsampling_radius :: real
  normal_est_search_radius :: real
  normal_est_viewpoint_xyz :: PointXYZ
  normal_est_kdtree_epsilon :: real

record RegionDetectionConfig =
  opencv_cfg :: OpenCVCfg
  pcl_2d_cfg :: PCL2DCfg
  pcl_cfg :: PCLCfg

text \<open>
  An organized cloud: \<open>at(column, row)\<close> reads \<open>points[row * width + column]\<close>.
\<close>

record PointCloud =
  width :: nat
  height :: nat
  cloud_points :: "PointXYZ list"

text \<open>
  The calls into OpenCV and PCL are parameters of the model, one field for each call;
  \<open>'img\<close> is \<open>cv::Mat\<close> and \<open>'tf\<close> the transform of a bundle.
  \<open>sequence_epsilon\<close> is the default value of the argument \<open>epsilon\<close> of
  \<open>sequence\<close>, which the header declares.
\<close>

record ('img, 'tf) library =
  cvtColor :: "'img \<Rightarrow> 'img"
  invert :: "'img \<Rightarrow> 'img"
  dilate :: "int \<Rightarrow> int \<Rightarrow> 'img \<Rightarrow> 'img"
  threshold :: "int \<Rightarrow> int \<Rightarrow> int \<Rightarrow> 'img \<Rightarrow> 'img"
  Canny :: "int \<Rightarrow> int \<Rightarrow> int \<Rightarrow> 'img \<Rightarrow> 'img"
  findContours :: "int \<Rightarrow> int \<Rightarrow> 'img \<Rightarrow> cv_Point list list"
  drawContours :: "'img \<Rightarrow> cv_Point list list \<Rightarrow> 'img"
  voxelGrid :: "real \<Rightarrow> PointXYZ list \<Rightarrow> PointXYZ list"
  nearestKSearch :: kd_search
  sequence_epsilon :: real
  concaveHull :: "real \<Rightarrow> PointXYZ list \<Rightarrow> PointXYZ list"
  transformPointCloud :: "'tf \<Rightarrow> PointXYZ list \<Rightarrow> PointXYZ list"
  removeNaNFromPointCloud :: "PointXYZ list \<Rightarrow> PointXYZ list"
  statisticalOutlierRemoval :: "int \<Rightarrow> real \<Rightarrow> PointXYZ list \<Rightarrow> PointXYZ list"
  normalEstimation :: "real \<Rightarrow> PointXYZ \<Rightarrow> PointXYZ list \<Rightarrow> PointXYZ list"

record ('img, 'tf) DataBundle =
  image :: 'img
  cloud_blob :: PointCloud
  transform :: 'tf

record 'img RegionResults =
  closed_regions_poses :: "Pose list list"
  open_regions_poses :: "Pose list list"
  images :: "'img list"

subsection \<open>\<open>RegionDetector::compute2dContours\<close>\<close>

definition DILATION_TYPES :: "int \<rightharpoonup> int" where
  "DILATION_TYPES = map_of [(0, 0), (1, 1), (2, 2)]"

text \<open>
  The result, \<open>contours_indices\<close> and \<open>output\<close>.  On the two early returns the
  contours are still empty and \<open>output\<close> is the image converted so far.
\<close>

definition compute2dContours ::
  "('img, 'tf) library \<Rightarrow> RegionDetectionConfig \<Rightarrow> 'img \<Rightarrow> Result \<times> cv_Point list list \<times> 'img" where
  "compute2dContours lib cfg input =
     (let config = opencv_cfg cfg;
          output1 = cvtColor lib input;
          output2 = (if invert_image config then invert lib output1 else output1)
      in if dilation_enable config \<and> dilation_kernel_size config \<le> 0
         then (\<lparr>success = False, msg = ''invalid dilation size''\<rparr>, [], output2)
         else if dilation_enable config \<and> DILATION_TYPES (dilation_elem config) = None
         then (\<lparr>success = False, msg = ''invalid dilation element''\<rparr>, [], output2)
         else
           let output3 = (if dilation_enable config
                          then dilate lib (the (DILATION_TYPES (dilation_elem config)))
                                 (dilation_kernel_size config) output2
                          else output2);
               output4 = (if threshold_enable config
                          then threshold lib (threshold_value config)
                                 (threshold_MAX_BINARY_VALUE config) (threshold_type config) output3
                          else output3);
               aperture_size = (if 2 * canny_aperture_size config + 1 < 3 then 3
                                else 2 * canny_aperture_size config + 1);
               output5 = (if canny_enable config
                          then Canny lib (canny_lower_threshold config)
                                 (canny_upper_threshold config) aperture_size output4
                          else output4);
               contours_indices = findContours lib (contour_mode config) (contour_method config) output5;
               drawing = drawContours lib output5 contours_indices
           in (\<lparr>success = True, msg = []\<rparr>, contours_indices, drawing))"

subsection \<open>Conversions between pixel contours and clouds\<close>

definition convert2DContourToCloud :: "cv_Point list \<Rightarrow> PointXYZ list" where
  "convert2DContourToCloud contour_2d = map (\<lambda>p_2d. (real_of_int (fst p_2d), real_of_int (snd p_2d), 0)) contour_2d"

text \<open>The conversion of a \<open>float\<close> to an \<open>int\<close> truncates towards zero.\<close>

definition c_trunc :: "real \<Rightarrow> int" where
  "c_trunc r = (if 0 \<le> r then \<lfloor>r\<rfloor> else \<lceil>r\<rceil>)"

definition convertCloudTo2DContour :: "PointXYZ list \<Rightarrow> cv_Point list" where
  "convertCloudTo2DContour contour_3d = map (\<lambda>p_3d. (c_trunc (xc p_3d), c_trunc (yc p_3d))) contour_3d"

subsection \<open>\<open>RegionDetector::extractContoursFromCloud\<close>\<close>

text \<open>
  The comparison \<open>idx.x >= input->width\<close> is between an \<open>int\<close> and a
  \<open>uint32_t\<close>: the \<open>int\<close> is converted to unsigned first, so a negative index
  compares as a large one.
\<close>

definition to_uint32 :: "int \<Rightarrow> nat" where
  "to_uint32 i = nat (i mod 2 ^ 32)"

text \<open>
  The points of one contour: \<open>None\<close> when an index exceeds the cloud, a fault when
  \<open>points.at\<close> throws.
\<close>

fun extract_points :: "PointCloud \<Rightarrow> cv_Point list \<Rightarrow> error + PointXYZ list option" where
  "extract_points input [] = Inr (Some [])"
| "extract_points input (idx # rest) =
     (if width input \<le> to_uint32 (fst idx) \<or> height input \<le> to_uint32 (snd idx) then Inr None
      else let k = to_uint32 (snd idx) * width input + to_uint32 (fst idx)
           in if length (cloud_points input) \<le> k then Inl OutOfRange
              else (case extract_points input rest of
                      Inl e \<Rightarrow> Inl e
                    | Inr None \<Rightarrow> Inr None
                    | Inr (Some ps) \<Rightarrow> Inr (Some (cloud_points input ! k # ps))))"

fun extract_loop ::
  "PointCloud \<Rightarrow> cv_Point list list \<Rightarrow> PointXYZ list list \<Rightarrow> error + (Result \<times> PointXYZ list list)" where
  "extract_loop input [] contours_points =
     Inr (\<lparr>success = (contours_points \<noteq> []), msg = []\<rparr>, contours_points)"
| "extract_loop input (indices # rest) contours_points =
     (if indices = []
      then Inr (\<lparr>success = False, msg = ''Empty indices vector was passed''\<rparr>, contours_points)
      else case extract_points input indices of
             Inl e \<Rightarrow> Inl e
           | Inr None \<Rightarrow>
               Inr (\<lparr>success = False, msg = ''2D indices exceed point cloud size''\<rparr>, contours_points)
           | Inr (Some temp_contour_points) \<Rightarrow>
               extract_loop input rest (contours_points @ [temp_contour_points]))"

definition extractContoursFromCloud ::
  "cv_Point list list \<Rightarrow> PointCloud \<Rightarrow> PointXYZ list list \<Rightarrow> error + (Result \<times> PointXYZ list list)" where
  "extractContoursFromCloud contour_indices input contours_points =
     (if \<not> 1 < height input
      then Inr (\<lparr>success = False, msg = ''Point Cloud not organized''\<rparr>, contours_points)
      else extract_loop input contour_indices contours_points)"

subsection \<open>\<open>RegionDetector::computeNormals\<close>\<close>

text \<open>
  The normals of the points of one curve: the normal is the one of the nearest point of
  the downsampled source cloud, the position is the point of the curve.
\<close>

fun curve_point_normals ::
  "kd_search \<Rightarrow> real \<Rightarrow> PointXYZ list \<Rightarrow> PointXYZ list \<Rightarrow> PointXYZ list
   \<Rightarrow> error + PointNormal list option" where
  "curve_point_normals kd epsilon source_cloud_downsampled source_cloud_normals [] = Inr (Some [])"
| "curve_point_normals kd epsilon source_cloud_downsampled source_cloud_normals (search_p # rest) =
     (case kd epsilon source_cloud_downsampled [0 ..< length source_cloud_downsampled] search_p of
        None \<Rightarrow> Inr None
      | Some (k, d) \<Rightarrow>
          if length source_cloud_normals \<le> k then Inl OutOfRange
          else (case curve_point_normals kd epsilon source_cloud_downsampled source_cloud_normals rest of
                  Inl e \<Rightarrow> Inl e
                | Inr None \<Rightarrow> Inr None
                | Inr (Some pns) \<Rightarrow> Inr (Some ((search_p, source_cloud_normals ! k) # pns))))"

fun normals_loop ::
  "kd_search \<Rightarrow> real \<Rightarrow> PointXYZ list \<Rightarrow> PointXYZ list \<Rightarrow> PointXYZ list list
   \<Rightarrow> PointNormal list list \<Rightarrow> error + (Result \<times> PointNormal list list)" where
  "normals_loop kd epsilon source_cloud_downsampled source_cloud_normals [] curves_normals =
     Inr (\<lparr>success = True, msg = []\<rparr>, curves_normals)"
| "normals_loop kd epsilon source_cloud_downsampled source_cloud_normals (curve # rest) curves_normals =
     (case curve_point_normals kd epsilon source_cloud_downsampled source_cloud_normals curve of
        Inl e \<Rightarrow> Inl e
      | Inr None \<Rightarrow>
          Inr (\<lparr>success = False, msg = ''Found no points near curve, can not get normal vector''\<rparr>,
               curves_normals)
      | Inr (Some curve_normals) \<Rightarrow>
          normals_loop kd epsilon source_cloud_downsampled source_cloud_normals rest
            (curves_normals @ [curve_normals]))"

definition computeNormals ::
  "('img, 'tf) library \<Rightarrow> RegionDetectionConfig \<Rightarrow> PointXYZ list \<Rightarrow> PointXYZ list list
   \<Rightarrow> PointNormal list list \<Rightarrow> error + (Result \<times> PointNormal list list)" where
  "computeNormals lib cfg source_cloud curves_points curves_normals =
     (let source_cloud_downsampled =
            voxelGrid lib (normal_est_downsampling_radius (pcl_cfg cfg)) source_cloud;
          source_cloud_normals =
            normalEstimation lib (normal_est_search_radius (pcl_cfg cfg))
              (normal_est_viewpoint_xyz (pcl_cfg cfg)) source_cloud_downsampled
      in normals_loop (nearestKSearch lib) (normal_est_kdtree_epsilon (pcl_cfg cfg))
           source_cloud_downsampled source_cloud_normals curves_points curves_normals)"

subsection \<open>\<open>RegionDetector::compute\<close>\<close>

text \<open>
  The state of the loop over the bundles: the curves and normals collected so far and
  the output \<open>regions\<close>, which \<open>compute\<close> receives by reference and writes to.
  A \<open>return false\<close> inside the loop is \<open>Return\<close> with the output as it is then.
\<close>

datatype ('r, 's) flow = Return 'r | Continue 's

record 'img compute_state =
  closed_contours_points :: "PointXYZ list list"
  open_contours_points :: "PointXYZ list list"
  normals :: "PointNormal list"
  regions :: "'img RegionResults"

text \<open>The body of the loop \<open>simplification of closed curves\<close>.\<close>

definition simplify_closed_curve ::
  "('img, 'tf) library \<Rightarrow> RegionDetectionConfig \<Rightarrow> PointXYZ list \<Rightarrow> error + PointXYZ list" where
  "simplify_closed_curve lib cfg curve =
     (if int (length curve) < pcl2d_simplification_min_points (pcl_2d_cfg cfg) then Inr curve
      else bindE (sequence (nearestKSearch lib)
                    (concaveHull lib (pcl2d_simplification_alpha (pcl_2d_cfg cfg)) curve)
                    (sequence_epsilon lib))
             (\<lambda>sequenced. if sequenced = [] then Inl FrontOfEmpty
                           else Inr (sequenced @ [hd sequenced])))"

text \<open>The body of the loop \<open>cleaning data\<close>.\<close>

definition clean_contour ::
  "('img, 'tf) library \<Rightarrow> RegionDetectionConfig \<Rightarrow> PointXYZ list \<Rightarrow> PointXYZ list" where
  "clean_contour lib cfg contour =
     (let contour1 = removeNaNFromPointCloud lib contour
      in if stat_removal_enable (pcl_cfg cfg)
         then statisticalOutlierRemoval lib (stat_removal_kmeans (pcl_cfg cfg))
                (stat_removal_stddev (pcl_cfg cfg)) contour1
         else contour1)"

text \<open>The body of the loop over the bundles.\<close>

definition process_bundle ::
  "('img, 'tf) library \<Rightarrow> RegionDetectionConfig \<Rightarrow> ('img, 'tf) DataBundle \<Rightarrow> 'img compute_state
   \<Rightarrow> error + ('img RegionResults, 'img compute_state) flow" where
  "process_bundle lib cfg data st =
     (case compute2dContours lib cfg (image data) of
        (res, contours_indices, output) \<Rightarrow>
          let regions1 = (regions st)\<lparr>images := images (regions st) @ [output]\<rparr>
          in if \<not> success res then Inr (Return regions1)
             else
               bindE (mapE interpolate_indices contours_indices) (\<lambda>interpolated.
               let clouds = map convert2DContourToCloud interpolated;
                   downsampled = (if 0 < pcl2d_downsampling_radius (pcl_2d_cfg cfg)
                                  then map (voxelGrid lib (pcl2d_downsampling_radius (pcl_2d_cfg cfg))) clouds
                                  else clouds)
               in
               bindE (mapE (\<lambda>c. sequence (nearestKSearch lib) c (sequence_epsilon lib)) downsampled)
                 (\<lambda>sequenced.
               let contours_indices_cloud_vec =
                     concat (map (\<lambda>c. split c (pcl2d_split_dist (pcl_2d_cfg cfg))) sequenced)
               in
               bindE (findClosedCurves contours_indices_cloud_vec
                        (pcl2d_closed_curve_max_dist (pcl_2d_cfg cfg)) [] [])
                 (\<lambda>(closed_found, open_indices_curves_vec).
               bindE (mapE (simplify_closed_curve lib cfg) closed_found)
                 (\<lambda>closed_indices_curves_vec.
               let contours_indices2 =
                     map convertCloudTo2DContour (closed_indices_curves_vec @ open_indices_curves_vec);
                   input_cloud = (cloud_blob data)
                     \<lparr>cloud_points := transformPointCloud lib (transform data)
                                        (cloud_points (cloud_blob data))\<rparr>
               in
               bindE (extractContoursFromCloud contours_indices2 input_cloud [])
                 (\<lambda>(res2, extracted).
               if \<not> success res2 then Inr (Return regions1)
               else
                 let contours_points = map (clean_contour lib cfg) extracted
                 in
                 bindE (computeNormals lib cfg (cloud_points input_cloud) contours_points [])
                   (\<lambda>(res3, contours_point_normals).
                 if \<not> success res3 then Inr (Return regions1)
                 else
                   Inr (Continue
                     \<lparr>closed_contours_points = closed_contours_points st @
                        (if closed_indices_curves_vec \<noteq> []
                         then take (length closed_indices_curves_vec) contours_points else []),
                      open_contours_points = open_contours_points st @
                        (if open_indices_curves_vec \<noteq> []
                         then drop (length closed_indices_curves_vec) contours_points else []),
                      normals = normals st @ concat contours_point_normals,
                      regions = regions1\<rparr>))))))))"

fun process_bundles ::
  "('img, 'tf) library \<Rightarrow> RegionDetectionConfig \<Rightarrow> ('img, 'tf) DataBundle list \<Rightarrow> 'img compute_state
   \<Rightarrow> error + ('img RegionResults, 'img compute_state) flow" where
  "process_bundles lib cfg [] st = Inr (Continue st)"
| "process_bundles lib cfg (data # rest) st =
     (case process_bundle lib cfg data st of
        Inl e \<Rightarrow> Inl e
      | Inr (Return r) \<Rightarrow> Inr (Return r)
      | Inr (Continue st') \<Rightarrow> process_bundles lib cfg rest st')"

text \<open>
  The part of \<open>compute\<close> after the loop: merging of the open curves, simplification,
  the filter on the number of points and the poses.  The results of
  \<open>combineIntoClosedRegions\<close> and of the two calls of \<open>computePoses\<close> are not looked
  at; the value returned is \<open>!regions.closed_regions_poses.empty()\<close>.
\<close>

definition assemble_regions ::
  "('img, 'tf) library \<Rightarrow> RegionDetectionConfig \<Rightarrow> 'img compute_state
   \<Rightarrow> error + (bool \<times> 'img RegionResults)" where
  "assemble_regions lib cfg st =
     bindE (combineIntoClosedRegions (pcl_max_merge_dist (pcl_cfg cfg))
              (pcl_closed_curve_max_dist (pcl_cfg cfg)) (open_contours_points st) [] [])
       (\<lambda>(res, closed_curves_points, open_curves_points).
     bindE (simplifyByMinimunLength (closed_contours_points st @ closed_curves_points)
              (pcl_simplification_min_dist (pcl_cfg cfg)))
       (\<lambda>closed_simplified.
     bindE (simplifyByMinimunLength open_curves_points (pcl_simplification_min_dist (pcl_cfg cfg)))
       (\<lambda>open_simplified.
     let closed_kept = filter (\<lambda>c. \<not> length c < pcl_min_num_points (pcl_cfg cfg)) closed_simplified;
         open_kept = filter (\<lambda>c. \<not> length c < pcl_min_num_points (pcl_cfg cfg)) open_simplified
     in
     bindE (computePoses (nearestKSearch lib) (normal_est_kdtree_epsilon (pcl_cfg cfg))
              (normals st) open_kept (open_regions_poses (regions st)))
       (\<lambda>(res_open, open_poses).
     bindE (computePoses (nearestKSearch lib) (normal_est_kdtree_epsilon (pcl_cfg cfg))
              (normals st) closed_kept (closed_regions_poses (regions st)))
       (\<lambda>(res_closed, closed_poses).
     Inr (closed_poses \<noteq> [],
          (regions st)\<lparr>open_regions_poses := open_poses, closed_regions_poses := closed_poses\<rparr>))))))"

definition compute ::
  "('img, 'tf) library \<Rightarrow> RegionDetectionConfig \<Rightarrow> ('img, 'tf) DataBundle list \<Rightarrow> 'img RegionResults
   \<Rightarrow> error + (bool \<times> 'img RegionResults)" where
  "compute lib cfg input regions0 =
     (case process_bundles lib cfg input
             \<lparr>closed_contours_points = [], open_contours_points = [], normals = [],
              regions = regions0\<rparr> of
        Inl e \<Rightarrow> Inl e
      | Inr (Return r) \<Rightarrow> Inr (False, r)
      | Inr (Continue st) \<Rightarrow> assemble_regions lib cfg st)"

text \<open>
  Columns of a rotation, the matrix \<open>R\<^sup>T R\<close> (its entries are the products of the
  columns), the identity and the determinant.
\<close>

definition mat_col :: "Matrix3d \<Rightarrow> nat \<Rightarrow> PointXYZ" where
  "mat_col R j =
     (if j = 0 then (xc (fst R), xc (fst (snd R)), xc (snd (snd R)))
      else if j = 1 then (yc (fst R), yc (fst (snd R)), yc (snd (snd R)))
      else (zc (fst R), zc (fst (snd R)), zc (snd (snd R))))"

definition transpose_times :: "Matrix3d \<Rightarrow> Matrix3d" where
  "transpose_times R =
     ((dot3 (mat_col R 0) (mat_col R 0), dot3 (mat_col R 0) (mat_col R 1), dot3 (mat_col R 0) (mat_col R 2)),
      (dot3 (mat_col R 1) (mat_col R 0), dot3 (mat_col R 1) (mat_col R 1), dot3 (mat_col R 1) (mat_col R 2)),
      (dot3 (mat_col R 2) (mat_col R 0), dot3 (mat_col R 2) (mat_col R 1), dot3 (mat_col R 2) (mat_col R 2)))"

definition Identity3 :: Matrix3d where
  "Identity3 = ((1, 0, 0), (0, 1, 0), (0, 0, 1))"

definition determinant :: "Matrix3d \<Rightarrow> real" where
  "determinant R =
     xc (fst R) * (yc (fst (snd R)) * zc (snd (snd R)) - zc (fst (snd R)) * yc (snd (snd R)))
     - yc (fst R) * (xc (fst (snd R)) * zc (snd (snd R)) - zc (fst (snd R)) * xc (snd (snd R)))
     + zc (fst R) * (xc (fst (snd R)) * yc (snd (snd R)) - yc (fst (snd R)) * xc (snd (snd R)))"

text \<open>The diagnostic image that a bundle adds to \<open>regions.images\<close>.\<close>

definition pushed_image :: "('img, 'tf) library \<Rightarrow> RegionDetectionConfig \<Rightarrow> ('img, 'tf) DataBundle \<Rightarrow> 'img" where
  "pushed_image lib cfg data = snd (snd (compute2dContours lib cfg (image data)))"

text \<open>A closed curve: the first vertex is there once more as the last vertex.\<close>

definition closed_curve :: "PointXYZ list \<Rightarrow> bool" where
  "closed_curve c \<longleftrightarrow> c \<noteq> [] \<and> hd c = last c"

subsection \<open>Instances of the libraries and of the configuration, for running the model\<close>

text \<open>
  A library whose image operations return the image as it is and whose contour finder
  returns the given contours; voxel grid, concave hull, transform and NaN removal are
  the identity, the search is the exact one, every estimated normal is \<open>(0,0,1)\<close>,
  and the outlier filter is the given function.
\<close>

definition demo_library ::
  "cv_Point list list \<Rightarrow> (PointXYZ list \<Rightarrow> PointXYZ list) \<Rightarrow> (nat, unit) library" where
  "demo_library contours outlier_filter =
     \<lparr>cvtColor = (\<lambda>im. im), invert = (\<lambda>im. im), dilate = (\<lambda>ty k im. im),
      threshold = (\<lambda>v m ty im. im), Canny = (\<lambda>lo hi ap im. im),
      findContours = (\<lambda>mode method im. contours), drawContours = (\<lambda>im cs. im),
      voxelGrid = (\<lambda>leaf c. c), nearestKSearch = exact_search, sequence_epsilon = 0,
      concaveHull = (\<lambda>alpha c. c), transformPointCloud = (\<lambda>tf c. c),
      removeNaNFromPointCloud = (\<lambda>c. c),
      statisticalOutlierRemoval = (\<lambda>k s c. outlier_filter c),
      normalEstimation = (\<lambda>r vp c. map (\<lambda>p. (0, 0, 1)) c)\<rparr>"

definition demo_config :: "bool \<Rightarrow> bool \<Rightarrow> RegionDetectionConfig" where
  "demo_config dilation outlier_removal =
     \<lparr>opencv_cfg =
        \<lparr>invert_image = False, dilation_enable = dilation, dilation_kernel_size = 0,
         dilation_elem = 0, threshold_enable = False, threshold_value = 0, threshold_type = 0,
         threshold_MAX_BINARY_VALUE = 255, canny_enable = False, canny_lower_threshold = 0,
         canny_upper_threshold = 0, canny_aperture_size = 1, contour_mode = 0,
         contour_method = 0\<rparr>,
      pcl_2d_cfg =
        \<lparr>pcl2d_downsampling_radius = 0, pcl2d_split_dist = 2,
         pcl2d_closed_curve_max_dist = 3 / 2, pcl2d_simplification_min_points = 100,
         pcl2d_simplification_alpha = 1\<rparr>,
      pcl_cfg =
        \<lparr>pcl_max_merge_dist = 1 / 2, pcl_closed_curve_max_dist = 1 / 2,
         pcl_simplification_min_dist = 1 / 2, pcl_min_num_points = 2,
         stat_removal_enable = outlier_removal, stat_removal_kmeans = 2,
         stat_removal_stddev = 1, normal_est_downsampling_radius = 1,
         normal_est_search_radius = 1, normal_est_viewpoint_xyz = (0, 0, 1),
         normal_est_kdtree_epsilon = 0\<rparr>\<rparr>"

definition no_regions :: "nat RegionResults" where
  "no_regions = \<lparr>closed_regions_poses = [], open_regions_poses = [], images = []\<rparr>"


text \<open>
  A bundle whose contour is the square \<open>(0,0), (1,0), (1,1), (0,1)\<close> over a 2x2 cloud
  in which the point of the pixel \<open>(0,0)\<close> lies far off the plane of the other three.
\<close>

definition square_bundle :: "(nat, unit) DataBundle" where
  "square_bundle =
     \<lparr>image = 7,
      cloud_blob = \<lparr>width = 2, height = 2,
                    cloud_points = [(0,0,5), (1,0,0), (0,1,0), (1,1,0)]\<rparr>,
      transform = ()\<rparr>"

text \<open>
  What the properties of \<open>sequence\<close> ask of the search: on a non-empty index list
  it finds a point, and the index it reports is one of the list.
\<close>

definition kd_finds :: "kd_search \<Rightarrow> real \<Rightarrow> PointXYZ list \<Rightarrow> bool" where
  "kd_finds kd epsilon cloud \<longleftrightarrow>
     (\<forall>indices p. indices \<noteq> [] \<longrightarrow>
        (\<exists>k d. kd epsilon cloud indices p = Some (k, d) \<and> k \<in> set indices))"

text \<open>
  The loop invariant of \<open>sequence\<close> at the head of the loop, and what holds of the
  state when the loop leaves through \<open>unsequenced_indices.empty()\<close>.
\<close>

definition seq_inv :: "PointXYZ list \<Rightarrow> seq_state \<Rightarrow> bool" where
  "seq_inv cloud st \<longleftrightarrow>
     distinct (unsequenced_indices st) \<and>
     search_point_idx st \<in> set (unsequenced_indices st) \<and>
     search_point st = cloud ! search_point_idx st \<and>
     sequenced_points st = map ((!) cloud) (sequenced_indices st) \<and>
     distinct (sequenced_indices st) \<and>
     iter_count st + length (unsequenced_indices st) = length cloud \<and>
     (sequenced_indices st = [] \<longrightarrow>
        set (unsequenced_indices st) = {0 ..< length cloud} \<and> 2 \<le> length cloud) \<and>
     (sequenced_indices st \<noteq> [] \<longrightarrow>
        set (sequenced_indices st) \<union> set (unsequenced_indices st) = {0 ..< length cloud} \<and>
        set (sequenced_indices st) \<inter> set (unsequenced_indices st) = {search_point_idx st})"

definition seq_complete :: "PointXYZ list \<Rightarrow> seq_state \<Rightarrow> bool" where
  "seq_complete cloud st \<longleftrightarrow>
     distinct (sequenced_indices st) \<and> set (sequenced_indices st) = {0 ..< length cloud} \<and>
     sequenced_points st = map ((!) cloud) (sequenced_indices st)"

section \<open>Properties\<close>

subsection \<open>Densification\<close>

lemma linspace_fill_Suc_numeral [simp]:
  "linspace_fill val h (numeral k) = val # linspace_fill (val + h) h (pred_numeral k)"
  by (simp add: numeral_eq_Suc)

text \<open>
  C6 (failing input).  For the contour \<open>(0,0), (2,1), (2,2)\<close> the integer step of
  \<open>linspace\<close> along y is \<open>1 / 2 = 0\<close>, so the interpolated points stay on the row
  \<open>y = 0\<close> and never reach \<open>(2,1)\<close>; the next vertex \<open>(2,2)\<close> is then pushed two
  pixels away from \<open>(2,0)\<close>.  The densified contour is not 8-connected.
\<close>

theorem densify_gap:
  "interpolate_indices [(0,0), (2,1), (2,2)] = Inr [(0,0), (0,0), (1,0), (2,0), (2,2)]
   \<and> \<not> eight_connected [(0,0), (0,0), (1,0), (2,0), (2,2)]"
  by (simp add: interpolate_indices_def interpolate_pair_def linspace_def bindE_def
      c_div_def MIN_PIXEL_DISTANCE_def chebyshev_def)

text \<open>
  C7 (as stated, refuted).  Densifying \<open>(0,0), (0,10)\<close> does not give 11 points: the
  first vertex is pushed before the loop and once more as the first interpolated point.
\<close>

theorem densify_two_vertices_not_eleven:
  "interpolate_indices [(0,0), (0,10)] \<noteq>
     Inr [(0,0), (0,1), (0,2), (0,3), (0,4), (0,5), (0,6), (0,7), (0,8), (0,9), (0,10)]"
  by (simp add: interpolate_indices_def interpolate_pair_def linspace_def bindE_def
      c_div_def MIN_PIXEL_DISTANCE_def)

text \<open>
  C7 (amended).  Densifying \<open>(0,0), (0,10)\<close> yields 12 points: \<open>(0,0)\<close> twice, then
  \<open>(0,1)\<close> through \<open>(0,10)\<close> once each; the distinct points are the 11 pixels of the
  column.
\<close>

theorem densify_two_vertices:
  "interpolate_indices [(0,0), (0,10)] =
     Inr [(0,0), (0,0), (0,1), (0,2), (0,3), (0,4), (0,5), (0,6), (0,7), (0,8), (0,9), (0,10)]"
  by (simp add: interpolate_indices_def interpolate_pair_def linspace_def bindE_def
      c_div_def MIN_PIXEL_DISTANCE_def)

subsection \<open>Sequencing\<close>

lemma filter_neq_absent: "v \<notin> set xs \<Longrightarrow> filter (\<lambda>x. x \<noteq> v) xs = xs"
  by (induction xs) auto

lemma length_filter_neq_distinct:
  "distinct xs \<Longrightarrow> v \<in> set xs \<Longrightarrow> Suc (length (filter (\<lambda>x. x \<noteq> v) xs)) = length xs"
  by (induction xs) (auto simp: filter_neq_absent)

lemma erase_remove_drops_current:
  assumes "distinct xs" "v \<in> set xs"
  shows "erase_remove xs v = Inr (filter (\<lambda>x. x \<noteq> v) xs)"
proof -
  let ?kept = "filter (\<lambda>x. x \<noteq> v) xs"
  have len: "Suc (length ?kept) = length xs"
    using assms by (rule length_filter_neq_distinct)
  then have "length ?kept < length (?kept @ drop (length ?kept) xs)"
    by simp
  moreover have "drop (Suc (length ?kept)) xs = []"
    using len by simp
  ultimately show ?thesis
    by (simp add: erase_remove_def std_remove_def erase_at_def Let_def)
qed

lemma sequence_step_iter_count:
  "sequence_step kd epsilon cloud st = Next st' \<or> sequence_step kd epsilon cloud st = Break st'
   \<or> sequence_step kd epsilon cloud st = Crash e st' \<Longrightarrow> iter_count st' = Suc (iter_count st)"
  by (auto simp: sequence_step_def Let_def split: sum.splits if_splits option.splits prod.splits)

lemma sequence_loop_iter_count:
  "iter_count st \<le> Suc max_iters \<Longrightarrow>
   iter_count (snd (sequence_loop kd epsilon cloud max_iters st)) \<le> Suc max_iters"
proof (induction kd epsilon cloud max_iters st rule: sequence_loop.induct)
  case (1 kd epsilon cloud max_iters st)
  show ?case
  proof (cases "iter_count st \<le> max_iters")
    case False
    with "1.prems" show ?thesis by (simp add: sequence_loop.simps)
  next
    case True
    show ?thesis
    proof (cases "sequence_step kd epsilon cloud st")
      case (Next st')
      then have "iter_count st' = Suc (iter_count st)"
        using sequence_step_iter_count by blast
      with True have "iter_count st' \<le> Suc max_iters" by simp
      with "1.IH" [OF True Next] True Next show ?thesis
        by (simp add: sequence_loop.simps [of kd epsilon cloud max_iters st])
    next
      case (Break st')
      then have "iter_count st' = Suc (iter_count st)"
        using sequence_step_iter_count by blast
      with True Break show ?thesis
        by (simp add: sequence_loop.simps [of kd epsilon cloud max_iters st])
    next
      case (Crash e st')
      then have "iter_count st' = Suc (iter_count st)"
        using sequence_step_iter_count by blast
      with True Crash show ?thesis
        by (simp add: sequence_loop.simps [of kd epsilon cloud max_iters st])
    qed
  qed
qed

text \<open>
  C10.  \<open>sequence\<close> terminates on every cloud (\<open>sequence_loop\<close> is a total
  function: each pass increments \<open>iter_count\<close> and the loop runs only while
  \<open>iter_count <= max_iters\<close>), and it makes at most \<open>|S| + 1\<close> passes through
  the body of its loop.
\<close>

theorem sequence_terminates_within_bound:
  "sequence_iterations kd cloud epsilon \<le> length cloud + 1"
proof (cases cloud)
  case Nil
  then show ?thesis by (simp add: sequence_iterations_def sequence_init_def)
next
  case (Cons p0 ps)
  then show ?thesis
    using sequence_loop_iter_count [of _ "length cloud" kd epsilon cloud]
    by (simp add: sequence_iterations_def sequence_init_def)
qed

lemma seq_invD:
  assumes "seq_inv cloud st"
  shows "distinct (unsequenced_indices st)"
    and "search_point_idx st \<in> set (unsequenced_indices st)"
    and "search_point st = cloud ! search_point_idx st"
    and "sequenced_points st = map ((!) cloud) (sequenced_indices st)"
    and "distinct (sequenced_indices st)"
    and "iter_count st + length (unsequenced_indices st) = length cloud"
    and "sequenced_indices st = [] \<Longrightarrow> set (unsequenced_indices st) = {0 ..< length cloud}"
    and "sequenced_indices st = [] \<Longrightarrow> 2 \<le> length cloud"
    and "sequenced_indices st \<noteq> [] \<Longrightarrow>
           set (sequenced_indices st) \<union> set (unsequenced_indices st) = {0 ..< length cloud}"
    and "sequenced_indices st \<noteq> [] \<Longrightarrow>
           set (sequenced_indices st) \<inter> set (unsequenced_indices st) = {search_point_idx st}"
  using assms unfolding seq_inv_def by blast+

lemma sequence_step_inv:
  assumes inv: "seq_inv cloud st" and kd: "kd_finds kd epsilon cloud"
  shows "case sequence_step kd epsilon cloud st of
           Next st' \<Rightarrow> seq_inv cloud st'
         | Break st' \<Rightarrow> seq_complete cloud st'
         | Crash e st' \<Rightarrow> False"
proof -
  let ?idx = "search_point_idx st"
  let ?unseq = "filter (\<lambda>x. x \<noteq> ?idx) (unsequenced_indices st)"
  note dist = seq_invD(1) [OF inv] and mem = seq_invD(2) [OF inv]
  have er: "erase_remove (unsequenced_indices st) ?idx = Inr ?unseq"
    using dist mem by (rule erase_remove_drops_current)
  have len: "Suc (length ?unseq) = length (unsequenced_indices st)"
    using dist mem by (rule length_filter_neq_distinct)
  have set_unseq: "set ?unseq = set (unsequenced_indices st) - {?idx}"
    by auto
  show ?thesis
  proof (cases "?unseq = []")
    case True
    then have only: "set (unsequenced_indices st) = {?idx}"
      using set_unseq mem by auto
    have l1: "length (unsequenced_indices st) = 1"
      using len True by simp
    have nonempty: "sequenced_indices st \<noteq> []"
    proof
      assume e: "sequenced_indices st = []"
      have "set (unsequenced_indices st) = {0 ..< length cloud}" and two: "2 \<le> length cloud"
        using seq_invD(7,8) [OF inv e] .
      then have "card (set (unsequenced_indices st)) = length cloud" by simp
      with dist l1 two show False by (simp add: distinct_card)
    qed
    have "?idx \<in> set (sequenced_indices st)"
      using seq_invD(10) [OF inv nonempty] by blast
    then have "set (sequenced_indices st) = {0 ..< length cloud}"
      using seq_invD(9) [OF inv nonempty] only by (simp add: insert_absorb)
    then have "seq_complete cloud (st\<lparr>iter_count := iter_count st + 1, unsequenced_indices := ?unseq\<rparr>)"
      using seq_invD(4,5) [OF inv] by (simp add: seq_complete_def)
    with True er show ?thesis
      by (simp add: sequence_step_def Let_def)
  next
    case False
    with kd obtain k d where found: "kd epsilon cloud ?unseq (search_point st) = Some (k, d)"
      and k_in: "k \<in> set ?unseq"
      unfolding kd_finds_def by blast
    define seq3 where "seq3 = (if sequenced_indices st = [] then [?idx] else sequenced_indices st)"
    define pts3 where "pts3 = (if sequenced_indices st = [] then [search_point st] else sequenced_points st)"
    have k_unseq: "k \<in> set (unsequenced_indices st)" and k_ne: "k \<noteq> ?idx"
      using k_in by auto
    have ne3: "seq3 \<noteq> []"
      by (simp add: seq3_def)
    have d3: "distinct seq3"
      using seq_invD(5) [OF inv] by (simp add: seq3_def)
    have p3: "pts3 = map ((!) cloud) seq3"
      using seq_invD(3,4) [OF inv] by (simp add: seq3_def pts3_def)
    have all: "set seq3 \<union> set (unsequenced_indices st) = {0 ..< length cloud}"
    proof (cases "sequenced_indices st = []")
      case True
      have "insert ?idx (set (unsequenced_indices st)) = set (unsequenced_indices st)"
        using mem by (rule insert_absorb)
      with seq_invD(7) [OF inv True] True show ?thesis by (simp add: seq3_def)
    next
      case False
      with seq_invD(9) [OF inv False] show ?thesis by (simp add: seq3_def)
    qed
    have inter: "set seq3 \<inter> set (unsequenced_indices st) = {?idx}"
    proof (cases "sequenced_indices st = []")
      case True
      with mem show ?thesis by (simp add: seq3_def)
    next
      case False
      with seq_invD(10) [OF inv False] show ?thesis by (simp add: seq3_def)
    qed
    have k_notin: "k \<notin> set seq3"
      using inter k_unseq k_ne by auto
    have k_lt: "k < length cloud"
      using all k_unseq by auto
    have "hd seq3 \<in> set seq3" using ne3 by simp
    then have hd_lt: "hd seq3 < length cloud"
      using all by auto
    define rv where "rv = (norm3 (diff3 (cloud ! hd seq3) (cloud ! k)) < sqrt d)"
    define seq4 where "seq4 = (if rv then rev seq3 else seq3)"
    define pts4 where "pts4 = (if rv then rev pts3 else pts3)"
    define st' where "st' = st\<lparr>iter_count := iter_count st + 1, unsequenced_indices := ?unseq,
        sequenced_indices := seq4 @ [k], sequenced_points := pts4 @ [cloud ! k],
        search_point_idx := k, search_point := cloud ! k\<rparr>"
    have step: "sequence_step kd epsilon cloud st = Next st'"
      unfolding sequence_step_def Let_def
      using er False found k_notin k_lt hd_lt
      by (cases "sequenced_indices st = []")
         (simp_all add: st'_def seq4_def pts4_def seq3_def pts3_def rv_def)
    have s4: "set seq4 = set seq3" and d4: "distinct seq4" and p4: "pts4 = map ((!) cloud) seq4"
      using d3 p3 by (auto simp: seq4_def pts4_def rev_map)
    have u1: "set (seq4 @ [k]) \<union> set ?unseq = {0 ..< length cloud}"
      using all inter k_unseq s4 set_unseq by auto
    have u2: "set (seq4 @ [k]) \<inter> set ?unseq = {k}"
      using inter k_in s4 set_unseq by auto
    note c = seq_invD(6) [OF inv]
    have "seq_inv cloud st'"
      unfolding seq_inv_def st'_def
      using dist k_in d4 p4 k_notin s4 u1 u2 len c
      by simp
    with step show ?thesis by simp
  qed
qed


lemma sequence_loop_complete:
  assumes "seq_inv cloud st" and "kd_finds kd epsilon cloud" and "max_iters = length cloud"
  shows "\<exists>st'. sequence_loop kd epsilon cloud max_iters st = (None, st') \<and> seq_complete cloud st'"
  using assms
proof (induction kd epsilon cloud max_iters st rule: sequence_loop.induct)
  case (1 kd epsilon cloud max_iters st)
  have guard: "iter_count st \<le> max_iters"
    using seq_invD(6) [OF "1.prems"(1)] "1.prems"(3) by simp
  note step = sequence_step_inv [OF "1.prems"(1,2)]
  show ?case
  proof (cases "sequence_step kd epsilon cloud st")
    case (Next st')
    with step have "seq_inv cloud st'" by simp
    from "1.IH" [OF guard Next this "1.prems"(2,3)] guard Next show ?thesis
      by (simp add: sequence_loop.simps [of kd epsilon cloud max_iters st])
  next
    case (Break st')
    with step have "seq_complete cloud st'" by simp
    with guard Break show ?thesis
      by (simp add: sequence_loop.simps [of kd epsilon cloud max_iters st])
  next
    case (Crash e st')
    with step show ?thesis by simp
  qed
qed

lemma seq_inv_init:
  assumes "2 \<le> length cloud" and "sequence_init cloud = Inr st0"
  shows "seq_inv cloud st0"
proof -
  from assms obtain p0 ps where c: "cloud = p0 # ps"
    by (cases cloud) auto
  with assms(2) have st0: "st0 = \<lparr>iter_count = 0, unsequenced_indices = [0 ..< length cloud],
      sequenced_indices = [], sequenced_points = [], search_point_idx = 0, search_point = p0\<rparr>"
    by (simp add: sequence_init_def)
  have ne: "cloud \<noteq> []" using c by simp
  have "cloud ! 0 = p0" using c by simp
  then show ?thesis
    unfolding seq_inv_def st0 using assms(1) ne by simp
qed

lemma mset_map_nth_permutation:
  assumes "distinct idxs" and "set idxs = {0 ..< length xs}"
  shows "mset (map ((!) xs) idxs) = mset xs"
proof -
  have "mset idxs = mset [0 ..< length xs]"
    using assms set_eq_iff_mset_eq_distinct [of idxs "[0 ..< length xs]"] by simp
  then have "image_mset ((!) xs) (mset idxs) = image_mset ((!) xs) (mset [0 ..< length xs])"
    by simp
  then have "mset (map ((!) xs) idxs) = mset (map ((!) xs) [0 ..< length xs])"
    by simp
  then show ?thesis by (simp add: map_nth)
qed

text \<open>
  C9 (amended).  For a cloud of at least two points, searched by a k-d tree that on
  every non-empty index list finds one of the listed points, \<open>sequence\<close> returns
  a path whose points are the points of the cloud, each as often as the cloud has it.
  In every pass \<open>erase(remove(...))\<close> drops exactly the current index: the
  unsequenced indices are distinct and hold the current index.
\<close>

theorem sequence_covers_all_points:
  assumes "2 \<le> length cloud" and "kd_finds kd epsilon cloud"
  shows "(\<exists>path. sequence kd cloud epsilon = Inr path \<and> mset path = mset cloud) \<and>
         (\<forall>(unsequenced :: nat list) current. distinct unsequenced \<and> current \<in> set unsequenced \<longrightarrow>
            erase_remove unsequenced current = Inr (filter (\<lambda>i. i \<noteq> current) unsequenced))"
proof
  from assms(1) obtain st0 where init: "sequence_init cloud = Inr st0"
    by (cases cloud) (auto simp: sequence_init_def)
  have "seq_inv cloud st0"
    using assms(1) init by (rule seq_inv_init)
  from sequence_loop_complete [OF this assms(2) refl]
  obtain st' where loop: "sequence_loop kd epsilon cloud (length cloud) st0 = (None, st')"
    and complete: "seq_complete cloud st'" by blast
  have "sequence kd cloud epsilon = Inr (sequenced_points st')"
    using init loop by (simp add: sequence_def bindE_def)
  moreover have "mset (sequenced_points st') = mset cloud"
    using complete mset_map_nth_permutation [of "sequenced_indices st'" cloud]
    by (simp add: seq_complete_def)
  ultimately show "\<exists>path. sequence kd cloud epsilon = Inr path \<and> mset path = mset cloud"
    by blast
next
  show "\<forall>(unsequenced :: nat list) current. distinct unsequenced \<and> current \<in> set unsequenced \<longrightarrow>
          erase_remove unsequenced current = Inr (filter (\<lambda>i. i \<noteq> current) unsequenced)"
    by (simp add: erase_remove_drops_current)
qed

lemma nearest_of_finds:
  "indices \<noteq> [] \<Longrightarrow> \<exists>k d. nearest_of cloud p indices = Some (k, d) \<and> k \<in> set indices"
proof (induction indices)
  case Nil
  then show ?case by simp
next
  case (Cons i indices)
  show ?case
  proof (cases "indices = []")
    case True
    then show ?thesis by simp
  next
    case False
    with Cons.IH obtain k d where "nearest_of cloud p indices = Some (k, d)" "k \<in> set indices"
      by blast
    then show ?thesis by simp
  qed
qed

lemma exact_search_finds: "kd_finds exact_search epsilon cloud"
  unfolding kd_finds_def exact_search_def using nearest_of_finds by blast

lemmas sequence_eval = sequence_def sequence_init_def sequence_step_def sequence_loop.simps
  erase_remove_def std_remove_def erase_at_def bindE_def exact_search_def sqr_dist_def
  squaredNorm_def diff3_def norm3_def Let_def

theorem sequence_covers_all_points_witness:
  "2 \<le> length [(0,0,0), (1,0,0), (3,0,0), (-1,0,0) :: PointXYZ] \<and>
   kd_finds exact_search 0 [(0,0,0), (1,0,0), (3,0,0), (-1,0,0)] \<and>
   sequence exact_search [(0,0,0), (1,0,0), (3,0,0), (-1,0,0)] 0
     = Inr [(3,0,0), (1,0,0), (0,0,0), (-1,0,0)] \<and>
   mset [(3,0,0), (1,0,0), (0,0,0), (-1,0,0) :: PointXYZ] = mset [(0,0,0), (1,0,0), (3,0,0), (-1,0,0)] \<and>
   erase_remove [0, 1, 2, 3 :: nat] 2 = Inr [0, 1, 3]"
proof -
  have a: "2 \<le> length [(0,0,0), (1,0,0), (3,0,0), (-1,0,0) :: PointXYZ]" by simp
  have b: "kd_finds exact_search 0 [(0,0,0), (1,0,0), (3,0,0), (-1,0,0)]"
    by (rule exact_search_finds)
  have c: "sequence exact_search [(0,0,0), (1,0,0), (3,0,0), (-1,0,0)] 0
     = Inr [(3,0,0), (1,0,0), (0,0,0), (-1,0,0)]"
    by (simp add: sequence_eval upt_rec)
  note inst = sequence_covers_all_points [OF a b]
  have d: "mset [(3,0,0), (1,0,0), (0,0,0), (-1,0,0) :: PointXYZ]
      = mset [(0,0,0), (1,0,0), (3,0,0), (-1,0,0)]"
    using inst [THEN conjunct1] unfolding c by simp
  have e: "erase_remove [0, 1, 2, 3 :: nat] 2 = Inr [0, 1, 3]"
    using inst [THEN conjunct2, rule_format, of "[0, 1, 2, 3]" 2] by simp
  from a b c d e show ?thesis by (intro conjI)
qed

text \<open>
  C9 (as stated, refuted).  On a cloud of one point the loop leaves through
  \<open>unsequenced_indices.empty()\<close> in its first pass, before the start point is
  pushed: the path is empty.
\<close>

theorem sequence_single_point_empty:
  "sequence exact_search [(0,0,0)] 0 = Inr [] \<and> mset ([] :: PointXYZ list) \<noteq> mset [(0,0,0)]"
  by (simp add: sequence_eval)

subsection \<open>Merging of curves\<close>

lemma min_element_scan_spec:
  assumes "smallest < first" and "first = length pre" and "smallest < length pre" and "pre ! smallest = v"
      and "\<forall>j < length pre. v \<le> pre ! j"
  shows "min_element_scan smallest v first xs < length (pre @ xs) \<and>
         (\<forall>j < length (pre @ xs). (pre @ xs) ! min_element_scan smallest v first xs \<le> (pre @ xs) ! j)"
  using assms
proof (induction xs arbitrary: smallest v first pre)
  case Nil
  then show ?case by simp
next
  case (Cons x xs)
  show ?case
  proof (cases "x < v")
    case True
    have "min_element_scan first x (first + 1) xs < length ((pre @ [x]) @ xs) \<and>
         (\<forall>j < length ((pre @ [x]) @ xs). ((pre @ [x]) @ xs) ! min_element_scan first x (first + 1) xs \<le> ((pre @ [x]) @ xs) ! j)"
    proof (rule Cons.IH)
      show "\<forall>j<length (pre @ [x]). x \<le> (pre @ [x]) ! j"
        using Cons.prems True by (auto simp: nth_append less_Suc_eq intro: less_imp_le order_trans)
    qed (use Cons.prems in \<open>auto simp: nth_append\<close>)
    with True show ?thesis by simp
  next
    case False
    have "min_element_scan smallest v (first + 1) xs < length ((pre @ [x]) @ xs) \<and>
         (\<forall>j < length ((pre @ [x]) @ xs). ((pre @ [x]) @ xs) ! min_element_scan smallest v (first + 1) xs \<le> ((pre @ [x]) @ xs) ! j)"
    proof (rule Cons.IH)
      show "\<forall>j<length (pre @ [x]). v \<le> (pre @ [x]) ! j"
        using Cons.prems False by (auto simp: nth_append less_Suc_eq)
    qed (use Cons.prems in \<open>auto simp: nth_append\<close>)
    with False show ?thesis by simp
  qed
qed

lemma min_element_least:
  assumes "xs \<noteq> []"
  shows "min_element xs < length xs \<and> (\<forall>j < length xs. xs ! min_element xs \<le> xs ! j)"
proof -
  from assms obtain x rest where xs: "xs = x # rest" by (cases xs) auto
  have "min_element_scan 0 x 1 rest < length ([x] @ rest) \<and>
        (\<forall>j < length ([x] @ rest). ([x] @ rest) ! min_element_scan 0 x 1 rest \<le> ([x] @ rest) ! j)"
    by (rule min_element_scan_spec) auto
  then show ?thesis by (simp add: xs min_element_def)
qed

lemma min_element_Min:
  assumes "xs \<noteq> []"
  shows "xs ! min_element xs = Min (set xs)"
proof (rule antisym)
  have "xs ! min_element xs \<in> set xs"
    using min_element_least [OF assms] by simp
  then show "Min (set xs) \<le> xs ! min_element xs" by simp
next
  show "xs ! min_element xs \<le> Min (set xs)"
    using min_element_least [OF assms] assms
    by (auto simp: in_set_conv_nth)
qed

text \<open>
  C5 (amended).  Two non-empty curves are merged exactly when the smallest of the four
  endpoint distances is at most \<open>max_merge_dist\<close>: \<open>mergeCurves\<close> refuses only a
  minimum that exceeds \<open>max_merge_dist\<close>, and merges when the two are equal.
\<close>

theorem mergeCurves_merges_iff:
  assumes "c1 \<noteq> []" and "c2 \<noteq> []"
  shows "(\<exists>merged. mergeCurves max_merge_dist c1 c2 = Inr (Some merged)) \<longleftrightarrow>
           Min (set (end_points_distances c1 c2)) \<le> max_merge_dist"
proof -
  have ne: "end_points_distances c1 c2 \<noteq> []"
    by (simp add: end_points_distances_def)
  note m = min_element_Min [OF ne]
  show ?thesis
    using assms unfolding mergeCurves_def Let_def m
    by (simp add: not_less)
qed

lemma sqrt_9: "sqrt 9 = 3"
  using real_sqrt_abs [of 3] by simp

theorem mergeCurves_merges_iff_witness:
  "[(0,0,0), (1,0,0)] \<noteq> ([] :: PointXYZ list) \<and> [(2,0,0), (3,0,0)] \<noteq> ([] :: PointXYZ list) \<and>
   mergeCurves 2 [(0,0,0), (1,0,0)] [(2,0,0), (3,0,0)] = Inr (Some [(0,0,0), (1,0,0), (2,0,0), (3,0,0)]) \<and>
   Min (set (end_points_distances [(0,0,0), (1,0,0)] [(2,0,0), (3,0,0)])) \<le> 2"
proof -
  have a: "[(0,0,0), (1,0,0)] \<noteq> ([] :: PointXYZ list)"
    and b: "[(2,0,0), (3,0,0)] \<noteq> ([] :: PointXYZ list)" by simp_all
  have c: "mergeCurves 2 [(0,0,0), (1,0,0)] [(2,0,0), (3,0,0)]
             = Inr (Some [(0,0,0), (1,0,0), (2,0,0), (3,0,0)])"
    by (simp add: mergeCurves_def end_points_distances_def min_element_def norm3_def
        squaredNorm_def diff3_def Let_def sqrt_9)
  have "Min (set (end_points_distances [(0,0,0), (1,0,0)] [(2,0,0), (3,0,0)])) \<le> 2"
    using mergeCurves_merges_iff [OF a b, of 2] c by simp
  with a b c show ?thesis by (intro conjI)
qed

text \<open>
  C5 (as stated, refuted).  The smallest endpoint distance of the two curves below is
  exactly \<open>max_merge_dist = 1\<close>, and \<open>mergeCurves\<close> merges them.
\<close>

theorem mergeCurves_at_max_merge_dist:
  "Min (set (end_points_distances [(0,0,0), (1,0,0)] [(2,0,0), (3,0,0)])) = 1 \<and>
   mergeCurves 1 [(0,0,0), (1,0,0)] [(2,0,0), (3,0,0)] = Inr (Some [(0,0,0), (1,0,0), (2,0,0), (3,0,0)])"
  by (simp add: mergeCurves_def end_points_distances_def min_element_def norm3_def squaredNorm_def
      diff3_def Let_def sqrt_9)

subsection \<open>Splitting and simplification\<close>

lemma mapE_Inr_set:
  "mapE f xs = Inr ys \<Longrightarrow> y \<in> set ys \<Longrightarrow> \<exists>x \<in> set xs. f x = Inr y"
proof (induction xs arbitrary: ys)
  case Nil
  then show ?case by simp
next
  case (Cons x xs)
  from Cons.prems(1) obtain z zs where fx: "f x = Inr z" and rest: "mapE f xs = Inr zs"
    and ys: "ys = z # zs"
    by (auto split: sum.splits)
  show ?case
  proof (cases "y = z")
    case True
    with fx show ?thesis by auto
  next
    case False
    with Cons.prems(2) ys have "y \<in> set zs" by simp
    from Cons.IH [OF rest this] show ?thesis by auto
  qed
qed







subsection \<open>The control flow of \<open>compute\<close>\<close>

lemma process_bundle_Return:
  assumes "process_bundle lib cfg data st = Inr (Return r)"
  shows "r = (regions st)\<lparr>images := images (regions st) @ [pushed_image lib cfg data]\<rparr>"
  using assms unfolding process_bundle_def pushed_image_def bindE_def Let_def
  by (simp split: prod.splits sum.splits if_splits)

lemma process_bundle_Continue:
  assumes "process_bundle lib cfg data st = Inr (Continue st')"
  shows "regions st' = (regions st)\<lparr>images := images (regions st) @ [pushed_image lib cfg data]\<rparr>"
  using assms unfolding process_bundle_def pushed_image_def bindE_def Let_def
  by (simp split: prod.splits sum.splits if_splits) auto


lemma process_bundles_regions:
  "process_bundles lib cfg input st = Inr out \<Longrightarrow>
     (case out of
        Return r \<Rightarrow>
          closed_regions_poses r = closed_regions_poses (regions st) \<and>
          open_regions_poses r = open_regions_poses (regions st) \<and>
          (\<exists>imgs. images r = images (regions st) @ imgs \<and> imgs \<noteq> [] \<and> length imgs \<le> length input)
      | Continue st' \<Rightarrow>
          closed_regions_poses (regions st') = closed_regions_poses (regions st) \<and>
          open_regions_poses (regions st') = open_regions_poses (regions st) \<and>
          (\<exists>imgs. images (regions st') = images (regions st) @ imgs \<and> length imgs = length input))"
proof (induction input arbitrary: st)
  case Nil
  then show ?case by auto
next
  case (Cons data rest)
  show ?case
  proof (cases "process_bundle lib cfg data st")
    case (Inl e)
    with Cons.prems show ?thesis by simp
  next
    case (Inr fl)
    show ?thesis
    proof (cases fl)
      case (Return r)
      with Inr Cons.prems have out: "out = Return r" by simp
      from process_bundle_Return Inr Return
      have "r = (regions st)\<lparr>images := images (regions st) @ [pushed_image lib cfg data]\<rparr>"
        by blast
      then show ?thesis unfolding out by simp
    next
      case (Continue st1)
      with Inr Cons.prems have rec: "process_bundles lib cfg rest st1 = Inr out" by simp
      from process_bundle_Continue Inr Continue
      have r1: "regions st1 = (regions st)\<lparr>images := images (regions st) @ [pushed_image lib cfg data]\<rparr>"
        by blast
      from Cons.IH [OF rec] show ?thesis
        unfolding r1 by (cases out) auto
    qed
  qed
qed

text \<open>
  C1.  When \<open>compute\<close> is given an output that holds no closed region yet and it
  returns, it returns success exactly when the output holds at least one closed region
  (a sequence of poses in \<open>closed_regions_poses\<close>).
\<close>

theorem compute_success_iff_closed_region:
  assumes "closed_regions_poses regions0 = []"
      and "compute lib cfg input regions0 = Inr (ok, regions')"
  shows "ok \<longleftrightarrow> closed_regions_poses regions' \<noteq> []"
proof -
  let ?st0 = "\<lparr>closed_contours_points = [], open_contours_points = [], normals = [],
                regions = regions0\<rparr>"
  show ?thesis
  proof (cases "process_bundles lib cfg input ?st0")
    case (Inl e)
    with assms(2) show ?thesis by (simp add: compute_def)
  next
    case (Inr fl)
    show ?thesis
    proof (cases fl)
      case (Return r)
      with Inr assms(2) have "ok = False" and "regions' = r"
        by (simp_all add: compute_def)
      moreover have "closed_regions_poses r = []"
        using process_bundles_regions [OF Inr] Return assms(1) by simp
      ultimately show ?thesis by simp
    next
      case (Continue st)
      with Inr assms(2) have "assemble_regions lib cfg st = Inr (ok, regions')"
        by (simp add: compute_def)
      then show ?thesis
        unfolding assemble_regions_def bindE_def Let_def
        by (auto split: sum.splits prod.splits)
    qed
  qed
qed


subsection \<open>Closed curves\<close>

lemma closed_curve_closing: "c \<noteq> [] \<Longrightarrow> closed_curve (c @ [hd c])"
  by (simp add: closed_curve_def)

lemma findClosedCurves_closed:
  assumes "findClosedCurves curves max_dist closed0 open0 = Inr (closed_found, open_found)"
      and "\<forall>c \<in> set closed0. closed_curve c"
  shows "\<forall>c \<in> set closed_found. closed_curve c"
  using assms
proof (induction curves arbitrary: closed0 open0)
  case Nil
  then show ?case by simp
next
  case (Cons curve rest)
  from Cons.prems(1) have ne: "curve \<noteq> []"
    by (auto split: if_splits)
  show ?case
  proof (cases "norm3 (diff3 (hd curve) (last curve)) < max_dist")
    case True
    with ne Cons.prems(1)
    have rec: "findClosedCurves rest max_dist (closed0 @ [curve @ [hd curve]]) open0
                 = Inr (closed_found, open_found)" by simp
    have "\<forall>c \<in> set (closed0 @ [curve @ [hd curve]]). closed_curve c"
      using Cons.prems(2) closed_curve_closing [OF ne] by simp
    from Cons.IH [OF rec this] show ?thesis .
  next
    case False
    with ne Cons.prems(1)
    have rec: "findClosedCurves rest max_dist closed0 (open0 @ [curve]) = Inr (closed_found, open_found)"
      by simp
    from Cons.IH [OF rec Cons.prems(2)] show ?thesis .
  qed
qed

lemma simplify_closed_curve_closed:
  assumes "closed_curve c" and "simplify_closed_curve lib cfg c = Inr c'"
  shows "closed_curve c'"
proof (cases "int (length c) < pcl2d_simplification_min_points (pcl_2d_cfg cfg)")
  case True
  with assms show ?thesis by (simp add: simplify_closed_curve_def)
next
  case False
  with assms(2) obtain sequenced where "sequenced \<noteq> []" and "c' = sequenced @ [hd sequenced]"
    by (auto simp: simplify_closed_curve_def bindE_def split: sum.splits if_splits)
  then show ?thesis by (simp add: closed_curve_closing)
qed

lemma combine_loop_closed:
  assumes "combine_loop mmd ccmd curves todo (merged, closed0, open0) = Inr (merged', closed_out, open_out)"
      and "\<forall>c \<in> set closed0. closed_curve c"
  shows "\<forall>c \<in> set closed_out. closed_curve c"
  using assms
proof (induction todo arbitrary: merged closed0 open0)
  case Nil
  then show ?case by simp
next
  case (Cons i rest)
  show ?case
  proof (cases "i \<in> set merged")
    case True
    with Cons.prems(1)
    have "combine_loop mmd ccmd curves rest (merged, closed0, open0) = Inr (merged', closed_out, open_out)"
      by simp
    from Cons.IH [OF this Cons.prems(2)] show ?thesis .
  next
    case False
    let ?m = "merge_until_stable mmd curves i
               (take i [0 ..< length curves] @ drop (Suc i) [0 ..< length curves]) (curves ! i, merged)"
    from False Cons.prems(1) obtain curve merged1 where m: "?m = Inr (curve, merged1)"
      by (cases ?m) auto
    from False Cons.prems(1) m have ne: "curve \<noteq> []"
      by (auto split: if_splits)
    show ?thesis
    proof (cases "norm3 (diff3 (hd curve) (last curve)) < ccmd")
      case True
      with False m ne Cons.prems(1)
      have rec: "combine_loop mmd ccmd curves rest (merged1 @ [i], closed0 @ [curve @ [hd curve]], open0)
                   = Inr (merged', closed_out, open_out)" by simp
      have "\<forall>c \<in> set (closed0 @ [curve @ [hd curve]]). closed_curve c"
        using Cons.prems(2) closed_curve_closing [OF ne] by simp
      from Cons.IH [OF rec this] show ?thesis .
    next
      case far: False
      with False m ne Cons.prems(1)
      have rec: "combine_loop mmd ccmd curves rest (merged1 @ [i], closed0, open0 @ [curve])
                   = Inr (merged', closed_out, open_out)" by simp
      from Cons.IH [OF rec Cons.prems(2)] show ?thesis .
    qed
  qed
qed

lemma combineIntoClosedRegions_closed:
  assumes "combineIntoClosedRegions mmd ccmd contours [] [] = Inr (res, closed_merged, open_merged)"
  shows "\<forall>c \<in> set closed_merged. closed_curve c"
proof -
  from assms obtain merged' open_out where
    "combine_loop mmd ccmd contours [0 ..< length contours] ([], [], []) = Inr (merged', closed_merged, open_out)"
    by (auto simp: combineIntoClosedRegions_def bindE_def Let_def split: sum.splits prod.splits)
  from combine_loop_closed [OF this] show ?thesis by simp
qed

lemma simplify_segment_ends:
  assumes "simplify_segment m seg = Inr c"
  shows "c \<noteq> [] \<and> hd c = hd seg \<and> last c = last seg"
  using assms by (auto simp: simplify_segment_def split: list.splits)

lemma simplifyByMinimunLength_closed:
  assumes "\<forall>seg \<in> set segments. closed_curve seg"
      and "simplifyByMinimunLength segments m = Inr out"
  shows "\<forall>c \<in> set out. closed_curve c"
proof
  fix c assume "c \<in> set out"
  with assms(2) obtain seg where seg: "seg \<in> set segments" and s: "simplify_segment m seg = Inr c"
    unfolding simplifyByMinimunLength_def
    using mapE_Inr_set [of "simplify_segment m" segments out c] by auto
  from simplify_segment_ends [OF s] assms(1) seg show "closed_curve c"
    by (simp add: closed_curve_def)
qed

text \<open>
  C4 (amended).  Every curve that \<open>findClosedCurves\<close> puts into the closed vector,
  every closed curve after the concave hull simplification, and every curve that
  \<open>combineIntoClosedRegions\<close> puts into the closed vector has its first vertex as
  its last vertex.  \<open>simplifyByMinimunLength\<close> keeps the first and the last vertex,
  so curves that enter it closed leave it closed.
\<close>

theorem closed_curves_stay_closed:
  "(findClosedCurves curves max_dist [] [] = Inr (closed_found, open_found) \<longrightarrow>
      (\<forall>c \<in> set closed_found. closed_curve c)) \<and>
   (closed_curve curve \<and> simplify_closed_curve lib cfg curve = Inr curve' \<longrightarrow> closed_curve curve') \<and>
   (combineIntoClosedRegions max_merge_dist closed_curve_max_dist contours [] []
      = Inr (res, closed_merged, open_merged) \<longrightarrow>
      (\<forall>c \<in> set closed_merged. closed_curve c)) \<and>
   ((\<forall>seg \<in> set segments. closed_curve seg) \<and> simplifyByMinimunLength segments min_length = Inr out \<longrightarrow>
      (\<forall>c \<in> set out. closed_curve c))"
proof (intro conjI impI)
  assume "findClosedCurves curves max_dist [] [] = Inr (closed_found, open_found)"
  from findClosedCurves_closed [OF this] show "\<forall>c \<in> set closed_found. closed_curve c" by simp
next
  assume "closed_curve curve \<and> simplify_closed_curve lib cfg curve = Inr curve'"
  then show "closed_curve curve'" using simplify_closed_curve_closed by blast
next
  assume "combineIntoClosedRegions max_merge_dist closed_curve_max_dist contours [] []
      = Inr (res, closed_merged, open_merged)"
  then show "\<forall>c \<in> set closed_merged. closed_curve c" by (rule combineIntoClosedRegions_closed)
next
  assume "(\<forall>seg \<in> set segments. closed_curve seg) \<and> simplifyByMinimunLength segments min_length = Inr out"
  then show "\<forall>c \<in> set out. closed_curve c" using simplifyByMinimunLength_closed by blast
qed

subsection \<open>Poses\<close>

lemma mat_col_toRotationMatrix:
  "mat_col (toRotationMatrix a b c) 0 = a"
  "mat_col (toRotationMatrix a b c) 1 = b"
  "mat_col (toRotationMatrix a b c) 2 = c"
  by (simp_all add: mat_col_def toRotationMatrix_def)

lemma determinant_toRotationMatrix:
  "determinant (toRotationMatrix a b c) = dot3 (cross3 a b) c"
  by (simp add: determinant_def toRotationMatrix_def dot3_def cross3_def algebra_simps)

lemma squaredNorm_dot3: "squaredNorm v = dot3 v v"
  by (simp add: squaredNorm_def dot3_def)

lemma dot3_commute: "dot3 u v = dot3 v u"
  by (simp add: dot3_def mult.commute)

lemma dot3_cross3_left: "dot3 (cross3 u v) u = 0"
  by (simp add: dot3_def cross3_def algebra_simps)

lemma dot3_cross3_right: "dot3 (cross3 u v) v = 0"
  by (simp add: dot3_def cross3_def algebra_simps)

lemma lagrange_identity:
  "dot3 (cross3 u v) (cross3 u v) = dot3 u u * dot3 v v - dot3 u v * dot3 u v"
  by (simp add: dot3_def cross3_def algebra_simps)

lemma dot3_scale3_left: "dot3 (scale3 a u) v = a * dot3 u v"
  by (simp add: dot3_def scale3_def algebra_simps)

lemma dot3_scale3_right: "dot3 u (scale3 a v) = a * dot3 u v"
  by (simp add: dot3_def scale3_def algebra_simps)

lemma cross3_scale3_left: "cross3 (scale3 a u) v = scale3 a (cross3 u v)"
  by (simp add: cross3_def scale3_def algebra_simps)

lemma cross3_scale3_right: "cross3 u (scale3 a v) = scale3 a (cross3 u v)"
  by (simp add: cross3_def scale3_def algebra_simps)

lemma scale3_scale3: "scale3 a (scale3 b v) = scale3 (a * b) v"
  by (simp add: scale3_def algebra_simps)

lemma scale3_one: "scale3 1 v = v"
  by (simp add: scale3_def)

lemma triple_product_expansion:
  "cross3 u (cross3 v u) = diff3 (scale3 (dot3 u u) v) (scale3 (dot3 u v) u)"
  by (simp add: cross3_def diff3_def scale3_def dot3_def algebra_simps)

lemma dot3_pos_iff: "0 < dot3 v v \<longleftrightarrow> v \<noteq> (0, 0, 0)"
proof -
  obtain a b c where v: "v = (a, b, c)" by (cases v) auto
  have "0 < a * a + b * b + c * c \<longleftrightarrow> \<not> (a = 0 \<and> b = 0 \<and> c = 0)"
  proof
    assume "0 < a * a + b * b + c * c"
    then show "\<not> (a = 0 \<and> b = 0 \<and> c = 0)" by auto
  next
    assume n: "\<not> (a = 0 \<and> b = 0 \<and> c = 0)"
    have "0 \<le> a * a" "0 \<le> b * b" "0 \<le> c * c" by simp_all
    moreover from n have "0 < a * a \<or> 0 < b * b \<or> 0 < c * c"
      by (auto simp: zero_less_mult_iff not_less) 
    ultimately show "0 < a * a + b * b + c * c" by linarith
  qed
  then show ?thesis by (simp add: v dot3_def)
qed

lemma normalized_unit:
  assumes "0 < dot3 v v"
  shows "normalized v = scale3 (1 / sqrt (dot3 v v)) v" and "dot3 (normalized v) (normalized v) = 1"
proof -
  show n: "normalized v = scale3 (1 / sqrt (dot3 v v)) v"
    using assms by (simp add: normalized_def squaredNorm_dot3)
  have "sqrt (dot3 v v) * sqrt (dot3 v v) = dot3 v v"
    using assms by simp
  then have "(1 / sqrt (dot3 v v)) * ((1 / sqrt (dot3 v v)) * dot3 v v) = 1"
    using assms by (simp add: field_simps)
  then show "dot3 (normalized v) (normalized v) = 1"
    unfolding n by (simp add: dot3_scale3_left dot3_scale3_right)
qed


lemma frame_orthonormal:
  assumes xu: "dot3 x x = 1" and zu: "dot3 z0 z0 = 1"
      and q: "0 < dot3 (cross3 z0 x) (cross3 z0 x)"
  defines "y \<equiv> normalized (cross3 z0 x)"
  defines "z \<equiv> normalized (cross3 x y)"
  shows "dot3 y y = 1" and "dot3 x y = 0" and "z = cross3 x y" and "dot3 z z = 1"
    and "dot3 x z = 0" and "dot3 y z = 0" and "dot3 (cross3 x y) z = 1"
    and "z = scale3 (1 / sqrt (dot3 (cross3 z0 x) (cross3 z0 x)))
               (diff3 z0 (scale3 (dot3 z0 x) x))"
proof -
  let ?s = "1 / sqrt (dot3 (cross3 z0 x) (cross3 z0 x))"
  have y: "y = scale3 ?s (cross3 z0 x)"
    unfolding y_def using q by (rule normalized_unit(1))
  show yy: "dot3 y y = 1"
    unfolding y_def using q by (rule normalized_unit(2))
  show xy: "dot3 x y = 0"
    unfolding y by (simp add: dot3_scale3_right dot3_commute [of x "cross3 z0 x"] dot3_cross3_right)
  have cc: "dot3 (cross3 x y) (cross3 x y) = 1"
    by (simp add: lagrange_identity xu yy xy)
  then have "normalized (cross3 x y) = scale3 (1 / sqrt 1) (cross3 x y)"
    using normalized_unit(1) [of "cross3 x y"] by simp
  then show zc: "z = cross3 x y"
    unfolding z_def by (simp add: scale3_one)
  show zz: "dot3 z z = 1"
    unfolding zc by (rule cc)
  show "dot3 x z = 0"
    unfolding zc by (simp add: dot3_commute [of x "cross3 x y"] dot3_cross3_left)
  show "dot3 y z = 0"
    unfolding zc by (simp add: dot3_commute [of y "cross3 x y"] dot3_cross3_right)
  show "dot3 (cross3 x y) z = 1"
    unfolding zc by (rule cc)
  have e1: "cross3 x y = scale3 ?s (cross3 x (cross3 z0 x))"
    unfolding y by (rule cross3_scale3_right)
  have e2: "cross3 x (cross3 z0 x) = diff3 (scale3 (dot3 x x) z0) (scale3 (dot3 x z0) x)"
    by (rule triple_product_expansion)
  have e3: "dot3 x z0 = dot3 z0 x"
    by (rule dot3_commute)
  show "z = scale3 ?s (diff3 z0 (scale3 (dot3 z0 x) x))"
    unfolding zc e1 e2 e3 xu scale3_one ..
qed


lemma cross3_zero_left: "cross3 (0, 0, 0) v = (0, 0, 0)"
  by (simp add: cross3_def)

lemma cross3_zero_right: "cross3 u (0, 0, 0) = (0, 0, 0)"
  by (simp add: cross3_def)

lemma diff3_scale3_zero: "diff3 v (scale3 0 u) = v"
  by (simp add: diff3_def scale3_def)

lemma pose_at_frame:
  assumes "pose_at curve curve_normals i = Inr P"
  shows "rotation P =
           toRotationMatrix
             (scale3 (if length curve \<le> i + 1 then - 1 else 1)
                (normalized (diff3 (curve ! (if length curve \<le> i + 1 then i - 1 else i + 1)) (curve ! i))))
             (normalized (cross3 (normalized (curve_normals ! i))
                (scale3 (if length curve \<le> i + 1 then - 1 else 1)
                   (normalized (diff3 (curve ! (if length curve \<le> i + 1 then i - 1 else i + 1)) (curve ! i))))))
             (normalized (cross3
                (scale3 (if length curve \<le> i + 1 then - 1 else 1)
                   (normalized (diff3 (curve ! (if length curve \<le> i + 1 then i - 1 else i + 1)) (curve ! i))))
                (normalized (cross3 (normalized (curve_normals ! i))
                   (scale3 (if length curve \<le> i + 1 then - 1 else 1)
                      (normalized (diff3 (curve ! (if length curve \<le> i + 1 then i - 1 else i + 1)) (curve ! i))))))))"
  using assms unfolding pose_at_def Let_def
  by (auto split: if_splits)

text \<open>
  C3 (amended).  Take a pose that the loop of \<open>computePoses\<close> emits at a vertex
  where the cross product of the normal and of the difference to the neighbouring
  vertex is not zero (the normal is not zero, the two vertices differ, and the normal is
  not parallel to the tangent).  Computed with real numbers, its rotation \<open>R\<close>
  satisfies \<open>R\<^sup>T R = I\<close> and \<open>det R = 1\<close>.  Its third column is a positive multiple of
  the part of the unit normal that is perpendicular to the tangent, and it is the unit
  normal when the normal is perpendicular to the tangent.
\<close>

theorem pose_rotation_orthonormal:
  assumes P: "pose_at curve curve_normals i = Inr P"
      and nd: "cross3 (curve_normals ! i)
                 (diff3 (curve ! (if length curve \<le> i + 1 then i - 1 else i + 1)) (curve ! i))
               \<noteq> (0, 0, 0)"
  shows "transpose_times (rotation P) = Identity3 \<and>
         determinant (rotation P) = 1 \<and>
         (\<exists>s. 0 < s \<and>
            mat_col (rotation P) 2 =
              scale3 s (diff3 (normalized (curve_normals ! i))
                          (scale3 (dot3 (normalized (curve_normals ! i)) (mat_col (rotation P) 0))
                             (mat_col (rotation P) 0)))) \<and>
         (dot3 (curve_normals ! i)
            (diff3 (curve ! (if length curve \<le> i + 1 then i - 1 else i + 1)) (curve ! i)) = 0
          \<longrightarrow> mat_col (rotation P) 2 = normalized (curve_normals ! i))"
proof -
  define n where "n = curve_normals ! i"
  define d where "d = diff3 (curve ! (if length curve \<le> i + 1 then i - 1 else i + 1)) (curve ! i)"
  define dir :: real where "dir = (if length curve \<le> i + 1 then - 1 else 1)"
  define x where "x = scale3 dir (normalized d)"
  define z0 where "z0 = normalized n"
  define y where "y = normalized (cross3 z0 x)"
  define z where "z = normalized (cross3 x y)"
  have R: "rotation P = toRotationMatrix x y z"
    using pose_at_frame [OF P] by (simp add: x_def y_def z_def z0_def n_def d_def dir_def)
  have nd': "cross3 n d \<noteq> (0, 0, 0)"
    using nd by (simp add: n_def d_def)
  have nn: "0 < dot3 n n"
    using nd' cross3_zero_left [of d] by (auto simp: dot3_pos_iff)
  have dd: "0 < dot3 d d"
    using nd' cross3_zero_right [of n] by (auto simp: dot3_pos_iff)
  have dir2: "dir * dir = 1"
    by (simp add: dir_def)
  define a where "a = 1 / sqrt (dot3 n n)"
  define b where "b = 1 / sqrt (dot3 d d)"
  have a: "0 < a" and b: "0 < b"
    using nn dd by (simp_all add: a_def b_def)
  have z0: "z0 = scale3 a n"
    unfolding z0_def a_def using nn by (rule normalized_unit(1))
  have x: "x = scale3 (dir * b) d"
    unfolding x_def b_def normalized_unit(1) [OF dd] by (rule scale3_scale3)
  have xu: "dot3 x x = 1"
    unfolding x_def by (simp add: dot3_scale3_left dot3_scale3_right normalized_unit(2) [OF dd] dir2)
  have zu: "dot3 z0 z0 = 1"
    unfolding z0_def using nn by (rule normalized_unit(2))
  have cz: "cross3 z0 x = scale3 (a * (dir * b)) (cross3 n d)"
    unfolding z0 x by (simp add: cross3_scale3_left cross3_scale3_right scale3_scale3 mult.commute)
  have k: "0 < (a * (dir * b)) * (a * (dir * b))"
  proof -
    have "dir \<noteq> 0" by (simp add: dir_def)
    with a b have "a * (dir * b) \<noteq> 0" by simp
    then have "0 < (a * (dir * b))\<^sup>2" by simp
    then show ?thesis by (simp only: power2_eq_square)
  qed
  have cc: "0 < dot3 (cross3 n d) (cross3 n d)"
    using nd' by (simp add: dot3_pos_iff)
  have q: "0 < dot3 (cross3 z0 x) (cross3 z0 x)"
  proof -
    have "dot3 (cross3 z0 x) (cross3 z0 x)
            = ((a * (dir * b)) * (a * (dir * b))) * dot3 (cross3 n d) (cross3 n d)"
      unfolding cz by (simp add: dot3_scale3_left dot3_scale3_right)
    then show ?thesis using k cc by simp
  qed
  note fr = frame_orthonormal [OF xu zu q, folded y_def, folded z_def]
  have yx: "dot3 y x = 0" using fr(2) by (simp add: dot3_commute [of y x])
  have zx: "dot3 z x = 0" using fr(5) by (simp add: dot3_commute [of z x])
  have zy: "dot3 z y = 0" using fr(6) by (simp add: dot3_commute [of z y])
  have g: "transpose_times (rotation P) = Identity3"
    unfolding R transpose_times_def mat_col_toRotationMatrix Identity3_def
    by (simp add: xu fr(1,2,4,5,6) yx zx zy)
  have dt: "determinant (rotation P) = 1"
    unfolding R determinant_toRotationMatrix by (rule fr(7))
  let ?s = "1 / sqrt (dot3 (cross3 z0 x) (cross3 z0 x))"
  have s: "0 < ?s" using q by simp
  have third: "mat_col (rotation P) 2 = scale3 ?s (diff3 z0 (scale3 (dot3 z0 x) x))"
    unfolding R mat_col_toRotationMatrix by (rule fr(8))
  have first: "mat_col (rotation P) 0 = x"
    unfolding R by (rule mat_col_toRotationMatrix)
  have ex: "\<exists>s. 0 < s \<and> mat_col (rotation P) 2 =
              scale3 s (diff3 (normalized (curve_normals ! i))
                          (scale3 (dot3 (normalized (curve_normals ! i)) (mat_col (rotation P) 0))
                             (mat_col (rotation P) 0)))"
    using s third unfolding first z0_def n_def by blast
  have perp: "mat_col (rotation P) 2 = normalized (curve_normals ! i)" if "dot3 n d = 0"
  proof -
    have zx0: "dot3 z0 x = 0"
      unfolding z0 x by (simp add: dot3_scale3_left dot3_scale3_right that)
    have "dot3 (cross3 z0 x) (cross3 z0 x) = 1"
      by (simp add: lagrange_identity zu xu zx0)
    then have "mat_col (rotation P) 2 = z0"
      using third by (simp add: zx0 diff3_scale3_zero scale3_one)
    then show ?thesis by (simp add: z0_def n_def)
  qed
  from g dt ex perp show ?thesis
    unfolding n_def d_def by blast
qed

subsection \<open>Runs of the pipeline\<close>

lemmas geometry_eval = norm3_def squaredNorm_def diff3_def sqr_dist_def scale3_def dot3_def
  cross3_def normalized_def toRotationMatrix_def MIN_POINT_DIST_def

lemmas pipeline_eval = process_bundle_def compute2dContours_def interpolate_indices_def
  interpolate_pair_def MIN_PIXEL_DISTANCE_def convert2DContourToCloud_def
  sequence_eval split_def split_loop.simps save_segment_def simplify_closed_curve_def
  convertCloudTo2DContour_def c_trunc_def extractContoursFromCloud_def to_uint32_def
  clean_contour_def computeNormals_def demo_library_def demo_config_def geometry_eval

lemmas assembly_eval = assemble_regions_def combineIntoClosedRegions_def
  merge_until_stable.simps mergeCurves_def end_points_distances_def min_element_def
  simplifyByMinimunLength_def simplify_segment_def pose_at_def bindE_def Let_def
  demo_library_def demo_config_def exact_search_def geometry_eval




lemma square_process:
  "process_bundle (demo_library [[(0,0), (1,0), (1,1), (0,1)]] (filter (\<lambda>p. zc p \<le> 1)))
     (demo_config False True) square_bundle
     \<lparr>closed_contours_points = [], open_contours_points = [], normals = [], regions = no_regions\<rparr>
   = Inr (Continue
          \<lparr>closed_contours_points = [[(1, 0, 0), (1, 1, 0), (0, 1, 0)]],
             open_contours_points = [],
             normals = [((1, 0, 0), 0, 0, 1), ((1, 1, 0), 0, 0, 1), ((0, 1, 0), 0, 0, 1)],
             regions = \<lparr>closed_regions_poses = [], open_regions_poses = [], images = [7]\<rparr>\<rparr>)"
  by (simp add: pipeline_eval square_bundle_def no_regions_def upt_rec)

lemma square_assemble:
  "assemble_regions (demo_library [[(0,0), (1,0), (1,1), (0,1)]] (filter (\<lambda>p. zc p \<le> 1)))
     (demo_config False True)
          \<lparr>closed_contours_points = [[(1, 0, 0), (1, 1, 0), (0, 1, 0)]],
             open_contours_points = [],
             normals = [((1, 0, 0), 0, 0, 1), ((1, 1, 0), 0, 0, 1), ((0, 1, 0), 0, 0, 1)],
             regions = \<lparr>closed_regions_poses = [], open_regions_poses = [], images = [7::nat]\<rparr>\<rparr>
   = Inr (True,
         \<lparr>closed_regions_poses =
            [[\<lparr>translation = (1, 0, 0), rotation = ((0, - 1, 0), (1, 0, 0), (0, 0, 1))\<rparr>,
              \<lparr>translation = (1, 1, 0), rotation = ((- 1, 0, 0), (0, - 1, 0), (0, 0, 1))\<rparr>,
              \<lparr>translation = (0, 1, 0), rotation = ((- 1, 0, 0), (0, - 1, 0), (0, 0, 1))\<rparr>]],
            open_regions_poses = [], images = [7]\<rparr>)"
  by (simp add: assembly_eval upt_rec)

lemma square_run:
  "compute (demo_library [[(0,0), (1,0), (1,1), (0,1)]] (filter (\<lambda>p. zc p \<le> 1)))
     (demo_config False True) [square_bundle] no_regions
   = Inr (True,
         \<lparr>closed_regions_poses =
            [[\<lparr>translation = (1, 0, 0), rotation = ((0, - 1, 0), (1, 0, 0), (0, 0, 1))\<rparr>,
              \<lparr>translation = (1, 1, 0), rotation = ((- 1, 0, 0), (0, - 1, 0), (0, 0, 1))\<rparr>,
              \<lparr>translation = (0, 1, 0), rotation = ((- 1, 0, 0), (0, - 1, 0), (0, 0, 1))\<rparr>]],
            open_regions_poses = [], images = [7]\<rparr>)"
  by (simp add: compute_def square_process square_assemble)


theorem compute_success_iff_closed_region_witness:
  "closed_regions_poses no_regions = [] \<and>
   compute (demo_library [[(0,0), (1,0), (1,1), (0,1)]] (filter (\<lambda>p. zc p \<le> 1)))
     (demo_config False True) [square_bundle] no_regions
   = Inr (True,
         \<lparr>closed_regions_poses =
            [[\<lparr>translation = (1, 0, 0), rotation = ((0, - 1, 0), (1, 0, 0), (0, 0, 1))\<rparr>,
              \<lparr>translation = (1, 1, 0), rotation = ((- 1, 0, 0), (0, - 1, 0), (0, 0, 1))\<rparr>,
              \<lparr>translation = (0, 1, 0), rotation = ((- 1, 0, 0), (0, - 1, 0), (0, 0, 1))\<rparr>]],
            open_regions_poses = [], images = [7]\<rparr>) \<and>
   (True \<longleftrightarrow>
    closed_regions_poses
         \<lparr>closed_regions_poses =
            [[\<lparr>translation = (1, 0, 0), rotation = ((0, - 1, 0), (1, 0, 0), (0, 0, 1))\<rparr>,
              \<lparr>translation = (1, 1, 0), rotation = ((- 1, 0, 0), (0, - 1, 0), (0, 0, 1))\<rparr>,
              \<lparr>translation = (0, 1, 0), rotation = ((- 1, 0, 0), (0, - 1, 0), (0, 0, 1))\<rparr>]],
            open_regions_poses = [], images = [7::nat]\<rparr> \<noteq> [])"
proof -
  have a: "closed_regions_poses no_regions = []"
    by (simp add: no_regions_def)
  from compute_success_iff_closed_region [OF a square_run] a square_run
  show ?thesis by (intro conjI)
qed




text \<open>
  C4 (as stated, refuted).  The contour is a square, closed in pixel space, and the
  outlier filter removes the cloud point of its first (and last) pixel, which lies far
  off the others.  The closed region that \<open>compute\<close> puts out visits
  \<open>(1,0,0), (1,1,0), (0,1,0)\<close>: its first and last vertex differ.
\<close>

theorem square_output_not_closed:
  "compute (demo_library [[(0,0), (1,0), (1,1), (0,1)]] (filter (\<lambda>p. zc p \<le> 1)))
     (demo_config False True) [square_bundle] no_regions
   = Inr (True,
         \<lparr>closed_regions_poses =
            [[\<lparr>translation = (1, 0, 0), rotation = ((0, - 1, 0), (1, 0, 0), (0, 0, 1))\<rparr>,
              \<lparr>translation = (1, 1, 0), rotation = ((- 1, 0, 0), (0, - 1, 0), (0, 0, 1))\<rparr>,
              \<lparr>translation = (0, 1, 0), rotation = ((- 1, 0, 0), (0, - 1, 0), (0, 0, 1))\<rparr>]],
            open_regions_poses = [], images = [7]\<rparr>) \<and>
   (1, 0, 0) \<noteq> ((0, 1, 0) :: PointXYZ)"
  by (simp add: square_run)


lemma sqrt_2_doubled: "1 < sqrt 2 * 2"
proof -
  have "1 < sqrt 2" by simp
  then show ?thesis by linarith
qed

theorem closed_curves_stay_closed_witness:
  "findClosedCurves [[(0,0,0), (1,0,0), (0,1,0)], [(0,0,0), (5,0,0)]] 2 [] []
     = Inr ([[(0,0,0), (1,0,0), (0,1,0), (0,0,0)]], [[(0,0,0), (5,0,0)]]) \<and>
   closed_curve [(0,0,0), (1,0,0), (0,1,0), (0,0,0)] \<and>
   simplify_closed_curve (demo_library [] (\<lambda>c. c))
     ((demo_config False False)
        \<lparr>pcl_2d_cfg := (pcl_2d_cfg (demo_config False False))\<lparr>pcl2d_simplification_min_points := 3\<rparr>\<rparr>)
     [(0,0,0), (1,0,0), (0,1,0), (0,0,0)]
     = Inr [(1,0,0), (0,0,0), (0,0,0), (0,1,0), (1,0,0)] \<and>
   closed_curve [(1,0,0), (0,0,0), (0,0,0), (0,1,0), (1,0,0)] \<and>
   combineIntoClosedRegions (1/2) 2 [[(0,0,0), (1,0,0)], [(1,0,0), (0,1,0)]] [] []
     = Inr (\<lparr>success = True, msg = []\<rparr>, [[(0,0,0), (1,0,0), (1,0,0), (0,1,0), (0,0,0)]], []) \<and>
   closed_curve [(0,0,0), (1,0,0), (1,0,0), (0,1,0), (0,0,0)] \<and>
   simplifyByMinimunLength [[(0,0,0), (1,0,0), (1,0,0), (0,1,0), (0,0,0)]] (1/2)
     = Inr [[(0,0,0), (1,0,0), (0,1,0), (0,0,0)]]"
proof -
  let ?cfg = "(demo_config False False)
        \<lparr>pcl_2d_cfg := (pcl_2d_cfg (demo_config False False))\<lparr>pcl2d_simplification_min_points := 3\<rparr>\<rparr>"
  have a: "findClosedCurves [[(0,0,0), (1,0,0), (0,1,0)], [(0,0,0), (5,0,0)]] 2 [] []
     = Inr ([[(0,0,0), (1,0,0), (0,1,0), (0,0,0)]], [[(0,0,0), (5,0,0)]])"
    by (simp add: geometry_eval)
  have b: "simplify_closed_curve (demo_library [] (\<lambda>c. c)) ?cfg [(0,0,0), (1,0,0), (0,1,0), (0,0,0)]
     = Inr [(1,0,0), (0,0,0), (0,0,0), (0,1,0), (1,0,0)]"
    by (simp add: simplify_closed_curve_def sequence_eval demo_library_def demo_config_def upt_rec
        geometry_eval)
  have c: "combineIntoClosedRegions (1/2) 2 [[(0,0,0), (1,0,0)], [(1,0,0), (0,1,0)]] [] []
     = Inr (\<lparr>success = True, msg = []\<rparr>, [[(0,0,0), (1,0,0), (1,0,0), (0,1,0), (0,0,0)]], [])"
    by (simp add: assembly_eval upt_rec)
  have d: "simplifyByMinimunLength [[(0,0,0), (1,0,0), (1,0,0), (0,1,0), (0,0,0)]] (1/2)
     = Inr [[(0,0,0), (1,0,0), (0,1,0), (0,0,0)]]"
    by (simp add: simplifyByMinimunLength_def simplify_segment_def geometry_eval sqrt_2_doubled)
  note inst = closed_curves_stay_closed
    [of "[[(0,0,0), (1,0,0), (0,1,0)], [(0,0,0), (5,0,0)]]" 2
        "[[(0,0,0), (1,0,0), (0,1,0), (0,0,0)]]" "[[(0,0,0), (5,0,0)]]"
        "[(0,0,0), (1,0,0), (0,1,0), (0,0,0)]" "demo_library [] (\<lambda>c. c)" ?cfg
        "[(1,0,0), (0,0,0), (0,0,0), (0,1,0), (1,0,0)]"
        "1/2" 2 "[[(0,0,0), (1,0,0)], [(1,0,0), (0,1,0)]]"
        "\<lparr>success = True, msg = []\<rparr>" "[[(0,0,0), (1,0,0), (1,0,0), (0,1,0), (0,0,0)]]" "[]"
        "[[(0,0,0), (1,0,0), (1,0,0), (0,1,0), (0,0,0)]]" "1/2" "[[(0,0,0), (1,0,0), (0,1,0), (0,0,0)]]"]
  have e: "closed_curve [(0,0,0), (1,0,0), (0,1,0), (0,0,0)]"
    using inst [THEN conjunct1] a by simp
  have f: "closed_curve [(1,0,0), (0,0,0), (0,0,0), (0,1,0), (1,0,0)]"
    using inst [THEN conjunct2, THEN conjunct1] e b by simp
  have g: "closed_curve [(0,0,0), (1,0,0), (1,0,0), (0,1,0), (0,0,0)]"
    using inst [THEN conjunct2, THEN conjunct2, THEN conjunct1] c by simp
  have h: "closed_curve [(0,0,0), (1,0,0), (0,1,0), (0,0,0)]"
    using inst [THEN conjunct2, THEN conjunct2, THEN conjunct2] g d by simp
  from a h b f c g d show ?thesis by (intro conjI)
qed

end
